theory Spec2Isabelle
  imports Complex_Main "HOL-Library.AList"
begin

section \<open>Data model\<close>

text \<open>
  The library has three classes: \<^verbatim>\<open>Lavalink\<close> (one websocket client per audio node),
  \<^verbatim>\<open>Player\<close> (one voice session per guild) and \<^verbatim>\<open>PlayerManager\<close> (a JavaScript
  \<^verbatim>\<open>Map\<close> from guild id to player, plus the node pool, the table of pending joins and
  the failover queue). Objects have identity and are shared (a player is referenced by
  the registry, by a pending join and by closures), so objects live in a store and are
  named by references. Everything runs on one event loop: deferred work
  (\<^verbatim>\<open>process.nextTick\<close>, promise continuations, \<^verbatim>\<open>setTimeout\<close>) is kept in explicit
  queues of the state and run by explicit steps.
\<close>

type_synonym guildId = string
type_synonym channelId = string
type_synonym host = string
type_synonym track = string
type_synonym nref = nat
type_synonym pref = nat
type_synonym promise = nat
type_synonym handle = nat

text \<open>The \<^verbatim>\<open>state\<close> object a node reports; only \<^verbatim>\<open>position\<close> is ever read.\<close>

datatype player_state = PlayerState (position: "nat option")

datatype jsvalue = JNum nat | JStr string

type_synonym play_options = "(string \<times> jsvalue) list"

text \<open>
  Payloads handed to a node. \<open>Play g t opts\<close> stands for
  \<^verbatim>\<open>Object.assign({op: 'play', guildId: g, track: t}, opts)\<close>.
\<close>

datatype payload =
    Connect guildId channelId
  | VoiceUpdate guildId string string string
  | Play guildId "track option" "play_options option"
  | Stop guildId
  | Disconnect guildId
  | ValidationRes "string option" "string option" bool
  | IsConnectedRes "int option" bool

text \<open>Payloads sent on the gateway (\<^verbatim>\<open>client.ws.send\<close>).\<close>

record gateway_d =
  d_guild_id :: "string option"
  d_channel_id :: "string option"
  d_self_mute :: "bool option"
  d_self_deaf :: "bool option"

record gateway_payload =
  gp_op :: int
  gp_d :: "gateway_d option"

text \<open>
  A parsed message of a node. Every field may be absent. \<open>m_message\<close> is the result of
  \<^verbatim>\<open>JSON.parse(message.message)\<close>: \<open>None\<close> when the parser throws. \<open>m_cpu\<close> is
  \<^verbatim>\<open>cpu.systemLoad\<close> and \<^verbatim>\<open>cpu.cores\<close> of a stats report.
\<close>

record message =
  m_op :: "string option"
  m_guildId :: "string option"
  m_channelId :: "string option"
  m_shardId :: "int option"
  m_message :: "gateway_payload option"
  m_state :: "player_state option"
  m_type :: "string option"
  m_reason :: "string option"
  m_cpu :: "(rat \<times> rat) option"

text \<open>The packet data of a \<^verbatim>\<open>VOICE_SERVER_UPDATE\<close>.\<close>

record voice_server_update =
  vs_guild_id :: guildId
  vs_session_id :: string
  vs_endpoint :: string
  vs_token :: string

datatype js_error = TypeError | SyntaxError

text \<open>
  What a join is rejected with, and what \<^verbatim>\<open>disconnect(msg)\<close> can be passed: the three
  rejections of \<^verbatim>\<open>join\<close>, or an exception caught by \<^verbatim>\<open>switchNode\<close>'s \<^verbatim>\<open>catch\<close>.
\<close>

datatype error = NoAvailableVoiceNodes | VoiceConnectionTimeout | Disconnected | Caught js_error

datatype outcome = Resolved pref | Rejected error

datatype notification =
    NConnect | NReady | NDisconnect "error option" | NEnd message | NError message
  | NWarn string | NReconnect

text \<open>
  Listeners of a player. The manager registers three kinds of closures: the ready and
  disconnect handlers of \<^verbatim>\<open>voiceServerUpdate\<close> (a fresh pair per call, told apart by a
  number) and the one-shot end listener of \<^verbatim>\<open>switchNode\<close> that restores the listeners
  it captured. A listener of the library's user is opaque: calling it changes nothing here.
\<close>

datatype listener =
    ReadyHandler handle guildId
  | DisconnectHandler handle guildId
  | RestoreEnd "listener list"
  | UserListener nat

record socket =
  sk_frames :: "payload list"
  sk_close_hooked :: bool
  sk_closed :: bool

text \<open>
  A \<^verbatim>\<open>Lavalink\<close> node. Port, address, user id, shard count and password only build the
  connection headers and are left out.
\<close>

record lavalink =
  ll_host :: host
  ll_region :: "string option"
  ll_connected :: bool
  ll_draining :: bool
  ll_retries :: nat
  ll_reconnectTimeout :: nat
  ll_reconnectInterval :: "handle option"
  ll_cpu :: "(rat \<times> rat) option"
  ll_ws :: "socket option"

text \<open>
  A \<^verbatim>\<open>Player\<close>. \<open>pl_listeners\<close> holds (event, once, listener); \<open>pl_emitted\<close> is the
  trace of what the player emitted. The fields \<^verbatim>\<open>client\<close>, \<^verbatim>\<open>manager\<close>, \<^verbatim>\<open>hostname\<close>,
  \<^verbatim>\<open>options\<close>, \<^verbatim>\<open>ready\<close>, \<^verbatim>\<open>sessionId\<close>, \<^verbatim>\<open>event\<close> and \<^verbatim>\<open>timestamp\<close> are never read
  by the code modelled here and are left out.
\<close>

record player =
  pl_id :: string
  pl_guildId :: guildId
  pl_channelId :: channelId
  pl_node :: nref
  pl_playing :: bool
  pl_state :: "player_state option"
  pl_track :: "track option"
  pl_lastTrack :: "track option"
  pl_playOptions :: "play_options option"
  pl_receivedEvents :: "payload list"
  pl_sendQueue :: "payload list"
  pl_listeners :: "(string \<times> bool \<times> listener) list"
  pl_emitted :: "notification list"

record pending =
  pg_channelId :: channelId
  pg_options :: "string option"
  pg_player :: "pref option"
  pg_node :: nref
  pg_promise :: promise
  pg_timeout :: "handle option"

datatype job = SwitchNode pref bool

text \<open>Keys of the manager's \<^verbatim>\<open>Map\<close>: any JavaScript value can be passed as a key.\<close>

datatype mapkey = KString string | KUndefined | KObject pref

datatype timer_action = Reconnect nref | CheckFailover | JoinTimeout guildId promise nref

datatype task =
    CheckEventQueue pref
  | EmitReady pref
  | EmitEnd pref message
  | Rejoin pref guildId channelId "track option" nat

datatype continuation = Rehome pref guildId "track option" nat

datatype microtask =
    JoinResume promise guildId channelId "string option" "pref option" "nref option"
  | Settled continuation outcome

text \<open>
  The state of the process. \<open>registry\<close> is the manager itself (it extends \<^verbatim>\<open>Map\<close>;
  insertion order is kept, as \<^verbatim>\<open>Map\<close> does). \<open>settlements\<close> is the trace of the calls of
  the \<^verbatim>\<open>res\<close> and \<^verbatim>\<open>rej\<close> functions of the promises \<^verbatim>\<open>join\<close> returned, \<open>gateway\<close> the
  trace of \<^verbatim>\<open>client.ws.send\<close>, \<open>failover_log\<close> the trace of the jobs \<^verbatim>\<open>processQueue\<close>
  called, stamped with the clock \<open>now\<close> (milliseconds), \<open>thrown\<close> the exceptions nothing
  caught.
\<close>

record world =
  now :: nat
  next_id :: nat
  lavalinks :: "nref \<rightharpoonup> lavalink"
  players :: "pref \<rightharpoonup> player"
  nodes :: "(host \<times> nref) list"
  registry :: "(mapkey \<times> pref) list"
  pendingGuilds :: "guildId \<rightharpoonup> pending"
  failoverQueue :: "job list"
  failoverRate :: nat
  failoverLimit :: nat
  defaultRegion :: "string option"
  reconnectThreshold :: "nat option"
  regions :: "(string \<times> string list) list"
  client_guilds :: "guildId list"
  client_channels :: "channelId list"
  client_status :: int
  client_errors :: "string list"
  gateway :: "gateway_payload list"
  settlements :: "(promise \<times> outcome) list"
  conts :: "promise \<rightharpoonup> continuation"
  timers :: "(handle \<times> nat \<times> timer_action) list"
  ticks :: "task list"
  microtasks :: "microtask list"
  thrown :: "js_error list"
  failover_log :: "(nat \<times> job) list"

text \<open>Statements executed one after the other: \<open>in_order [f, g, h] w\<close> is \<open>h (g (f w))\<close>.\<close>

fun in_order :: "('a \<Rightarrow> 'a) list \<Rightarrow> 'a \<Rightarrow> 'a" where
  "in_order [] w = w"
| "in_order (f # fs) w = in_order fs (f w)"

section \<open>Lavalink\<close>

text \<open>
  \<^verbatim>\<open>send(data)\<close>: nothing happens without a socket. The payloads are plain objects, so
  \<^verbatim>\<open>JSON.stringify\<close> cannot throw on them.
\<close>

definition send :: "lavalink \<Rightarrow> payload \<Rightarrow> lavalink" where
  "send l data =
     (case ll_ws l of
        None \<Rightarrow> l
      | Some ws \<Rightarrow> l\<lparr>ll_ws := Some (ws\<lparr>sk_frames := sk_frames ws @ [data]\<rparr>)\<rparr>)"

text \<open>\<^verbatim>\<open>retryInterval()\<close>: \<^verbatim>\<open>this.retries - 1\<close> is \<open>-1\<close> at the first attempt.\<close>

definition retryInterval :: "lavalink \<Rightarrow> int" where
  "retryInterval l = (let retries = min (int (ll_retries l) - 1) 5 in (retries + 5) ^ 2 * 1000)"

definition destroy :: "lavalink \<Rightarrow> lavalink" where
  "destroy l =
     (case ll_ws l of
        None \<Rightarrow> l
      | Some ws \<Rightarrow> l\<lparr>ll_ws := Some (ws\<lparr>sk_close_hooked := False, sk_closed := True\<rparr>)\<rparr>)"

definition new_socket :: socket where
  "new_socket = \<lparr>sk_frames = [], sk_close_hooked = True, sk_closed = False\<rparr>"

text \<open>\<^verbatim>\<open>connect()\<close> opens a new socket and hooks the node's handlers on it.\<close>

definition connect :: "lavalink \<Rightarrow> lavalink" where
  "connect l = l\<lparr>ll_ws := Some new_socket\<rparr>"

text \<open>\<^verbatim>\<open>setTimeout\<close> and \<^verbatim>\<open>clearTimeout\<close> on the timer table of the state.\<close>

definition setTimeout :: "timer_action \<Rightarrow> nat \<Rightarrow> world \<Rightarrow> handle \<times> world" where
  "setTimeout a delay w =
     (next_id w, w\<lparr>timers := timers w @ [(next_id w, now w + delay, a)], next_id := Suc (next_id w)\<rparr>)"

definition clearTimeout :: "handle \<Rightarrow> world \<Rightarrow> world" where
  "clearTimeout h w = w\<lparr>timers := filter (\<lambda>t. fst t \<noteq> h) (timers w)\<rparr>"

definition upd_node :: "nref \<Rightarrow> (lavalink \<Rightarrow> lavalink) \<Rightarrow> world \<Rightarrow> world" where
  "upd_node n f w =
     (case lavalinks w n of None \<Rightarrow> w | Some l \<Rightarrow> w\<lparr>lavalinks := (lavalinks w)(n \<mapsto> f l)\<rparr>)"

text \<open>
  \<^verbatim>\<open>reconnect()\<close>: the interval is computed from the retry count before it is
  incremented.
\<close>

definition reconnect :: "nref \<Rightarrow> world \<Rightarrow> world" where
  "reconnect n w =
     (case lavalinks w n of
        None \<Rightarrow> w
      | Some l \<Rightarrow>
          (let interval = retryInterval l;
               (h, w1) = setTimeout (Reconnect n) (nat interval) w
           in upd_node n (\<lambda>l. connect (l\<lparr>ll_reconnectInterval := Some h, ll_retries := Suc (ll_retries l)\<rparr>)) w1))"

text \<open>\<^verbatim>\<open>ready()\<close>, called when the socket opens. Nothing listens to the node's ready event.\<close>

definition ready :: "nref \<Rightarrow> world \<Rightarrow> world" where
  "ready n w =
     (case lavalinks w n of
        None \<Rightarrow> w
      | Some l \<Rightarrow>
          (let w1 = (case ll_reconnectInterval l of
                       None \<Rightarrow> w
                     | Some h \<Rightarrow> upd_node n (\<lambda>l. l\<lparr>ll_reconnectInterval := None\<rparr>) (clearTimeout h w))
           in upd_node n (\<lambda>l. l\<lparr>ll_connected := True, ll_retries := 0\<rparr>) w1))"

section \<open>Player\<close>

definition upd_player :: "pref \<Rightarrow> (player \<Rightarrow> player) \<Rightarrow> world \<Rightarrow> world" where
  "upd_player p f w =
     (case players w p of None \<Rightarrow> w | Some pl \<Rightarrow> w\<lparr>players := (players w)(p \<mapsto> f pl)\<rparr>)"

definition node_send :: "nref \<Rightarrow> payload \<Rightarrow> world \<Rightarrow> world" where
  "node_send n data w = upd_node n (\<lambda>l. send l data) w"

text \<open>\<^verbatim>\<open>process.nextTick(callback)\<close>: the callback joins the queue of deferred callbacks.\<close>

definition nextTick :: "task \<Rightarrow> world \<Rightarrow> world" where
  "nextTick t w = w\<lparr>ticks := ticks w @ [t]\<rparr>"

text \<open>
  \<^verbatim>\<open>sendEvent(data)\<close>: record, hand to the node, check the queue on the next tick.
  Statements in sequence are written with \<open>in_order\<close>.
\<close>

definition sendEvent :: "pref \<Rightarrow> payload \<Rightarrow> world \<Rightarrow> world" where
  "sendEvent p data w =
     (case players w p of
        None \<Rightarrow> w
      | Some pl \<Rightarrow>
          in_order
            [upd_player p (\<lambda>pl. pl\<lparr>pl_receivedEvents := pl_receivedEvents pl @ [data]\<rparr>),
             node_send (pl_node pl) data,
             nextTick (CheckEventQueue p)] w)"

text \<open>\<^verbatim>\<open>checkEventQueue()\<close>: \<^verbatim>\<open>splice(0, 1)\<close> takes the first queued payload.\<close>

definition checkEventQueue :: "pref \<Rightarrow> world \<Rightarrow> world" where
  "checkEventQueue p w =
     (case players w p of
        None \<Rightarrow> w
      | Some pl \<Rightarrow>
          (case pl_sendQueue pl of
             [] \<Rightarrow> w
           | event # rest \<Rightarrow> sendEvent p event (upd_player p (\<lambda>pl. pl\<lparr>pl_sendQueue := rest\<rparr>) w)))"

definition queueEvent :: "pref \<Rightarrow> payload \<Rightarrow> world \<Rightarrow> world" where
  "queueEvent p data w =
     (case players w p of
        None \<Rightarrow> w
      | Some pl \<Rightarrow>
          (if length (pl_sendQueue pl) > 0
           then upd_player p (\<lambda>pl. pl\<lparr>pl_sendQueue := pl_sendQueue pl @ [data]\<rparr>) w
           else sendEvent p data w))"

text \<open>
  The event emitter (\<^verbatim>\<open>eventemitter3\<close>, which the code prefers): \<^verbatim>\<open>removeListener\<close> drops
  the entries of that event with that function; with \<open>once_only\<close> set, only the one-shot
  ones, as \<^verbatim>\<open>emit\<close> does for a one-shot listener before calling it.
\<close>

definition removeListener :: "pref \<Rightarrow> string \<Rightarrow> listener \<Rightarrow> bool \<Rightarrow> world \<Rightarrow> world" where
  "removeListener p ev fn once_only w =
     upd_player p (\<lambda>pl. pl\<lparr>pl_listeners :=
       filter (\<lambda>(e, once, f). \<not> (e = ev \<and> f = fn \<and> (if once_only then once else True)))
         (pl_listeners pl)\<rparr>) w"

definition add_listener :: "pref \<Rightarrow> string \<Rightarrow> bool \<Rightarrow> listener \<Rightarrow> world \<Rightarrow> world" where
  "add_listener p ev once fn w =
     upd_player p (\<lambda>pl. pl\<lparr>pl_listeners := pl_listeners pl @ [(ev, once, fn)]\<rparr>) w"

text \<open>
  A call of \<^verbatim>\<open>res\<close> or \<^verbatim>\<open>rej\<close>. Only the first call settles the promise; if a
  continuation waits on it (\<^verbatim>\<open>switchNode\<close>'s \<^verbatim>\<open>then\<close>/\<^verbatim>\<open>catch\<close>), it becomes a microtask.
\<close>

definition settle :: "promise \<Rightarrow> outcome \<Rightarrow> world \<Rightarrow> world" where
  "settle pr out w =
     (let first = (map_of (settlements w) pr = None);
          w1 = w\<lparr>settlements := settlements w @ [(pr, out)]\<rparr>
      in case conts w pr of
           None \<Rightarrow> w1
         | Some c \<Rightarrow> if first then w1\<lparr>microtasks := microtasks w1 @ [Settled c out]\<rparr> else w1)"

definition pending_delete :: "guildId \<Rightarrow> world \<Rightarrow> world" where
  "pending_delete g w = w\<lparr>pendingGuilds := (pendingGuilds w)(g := None)\<rparr>"

text \<open>
  The two closures of \<^verbatim>\<open>voiceServerUpdate\<close>. Each returns whether it threw: with a
  pending join but no player in the registry, \<^verbatim>\<open>player.removeListener\<close> is a call on
  \<^verbatim>\<open>undefined\<close>.
\<close>

definition readyHandler :: "handle \<Rightarrow> guildId \<Rightarrow> world \<Rightarrow> bool \<times> world" where
  "readyHandler h g w =
     (let player = map_of (registry w) (KString g) in
      case pendingGuilds w g of
        None \<Rightarrow>
          (case player of
             None \<Rightarrow> (False, w)
           | Some p \<Rightarrow> (False, removeListener p ''disconnect'' (DisconnectHandler h g) False w))
      | Some e \<Rightarrow>
          (case player of
             None \<Rightarrow> (True, w\<lparr>thrown := thrown w @ [TypeError]\<rparr>)
           | Some p \<Rightarrow>
               (False,
                in_order
                  [removeListener p ''disconnect'' (DisconnectHandler h g) False,
                   settle (pg_promise e) (Resolved p),
                   pending_delete g] w)))"

definition disconnectHandler :: "handle \<Rightarrow> guildId \<Rightarrow> world \<Rightarrow> bool \<times> world" where
  "disconnectHandler h g w =
     (let player = map_of (registry w) (KString g) in
      case pendingGuilds w g of
        None \<Rightarrow>
          (case player of
             None \<Rightarrow> (False, w)
           | Some p \<Rightarrow> (False, removeListener p ''ready'' (ReadyHandler h g) False w))
      | Some e \<Rightarrow>
          (case player of
             None \<Rightarrow> (True, w\<lparr>thrown := thrown w @ [TypeError]\<rparr>)
           | Some p \<Rightarrow>
               (False,
                in_order
                  [removeListener p ''ready'' (ReadyHandler h g) False,
                   settle (pg_promise e) (Rejected Disconnected),
                   pending_delete g] w)))"

fun invoke :: "listener \<Rightarrow> pref \<Rightarrow> world \<Rightarrow> bool \<times> world" where
  "invoke (ReadyHandler h g) q w = readyHandler h g w"
| "invoke (DisconnectHandler h g) q w = disconnectHandler h g w"
| "invoke (RestoreEnd ls) q w =
     (False, upd_player q (\<lambda>pl. pl\<lparr>pl_listeners := pl_listeners pl @ map (\<lambda>l. (''end'', False, l)) ls\<rparr>) w)"
| "invoke (UserListener k) q w = (False, w)"

text \<open>
  \<^verbatim>\<open>emit\<close> calls the listeners registered when it starts, in order; a one-shot listener
  is removed before it is called; an exception ends the emission.
\<close>

fun call_listeners :: "(bool \<times> listener) list \<Rightarrow> string \<Rightarrow> pref \<Rightarrow> world \<Rightarrow> world" where
  "call_listeners [] ev q w = w"
| "call_listeners ((once, fn) # rest) ev q w =
     (let w1 = (if once then removeListener q ev fn True w else w);
          (threw, w2) = invoke fn q w1
      in if threw then w2 else call_listeners rest ev q w2)"

definition emit :: "pref \<Rightarrow> string \<Rightarrow> notification \<Rightarrow> world \<Rightarrow> world" where
  "emit q ev note w =
     (case players w q of
        None \<Rightarrow> w
      | Some pl \<Rightarrow>
          call_listeners (map snd (filter (\<lambda>(e, once, f). e = ev) (pl_listeners pl))) ev q
            (upd_player q (\<lambda>pl. pl\<lparr>pl_emitted := pl_emitted pl @ [note]\<rparr>) w))"

text \<open>\<^verbatim>\<open>updateVoiceState(channelId)\<close>; no caller passes \<^verbatim>\<open>selfMute\<close> or \<^verbatim>\<open>selfDeaf\<close>.\<close>

definition updateVoiceState :: "pref \<Rightarrow> channelId option \<Rightarrow> world \<Rightarrow> world" where
  "updateVoiceState p channel w =
     (case players w p of
        None \<Rightarrow> w
      | Some pl \<Rightarrow>
          w\<lparr>gateway := gateway w @
            [\<lparr>gp_op = 4,
              gp_d = Some \<lparr>d_guild_id = (if pl_id pl = ''call'' then None else Some (pl_id pl)),
                           d_channel_id = (case channel of None \<Rightarrow> None
                                           | Some c \<Rightarrow> if c = [] then None else Some c),
                           d_self_mute = Some False, d_self_deaf = Some False\<rparr>\<rparr>]\<rparr>)"

definition switchChannel :: "pref \<Rightarrow> channelId \<Rightarrow> bool \<Rightarrow> world \<Rightarrow> world" where
  "switchChannel p channel reactive w =
     (case players w p of
        None \<Rightarrow> w
      | Some pl \<Rightarrow>
          (if pl_channelId pl = channel then w
           else (let w1 = upd_player p (\<lambda>pl. pl\<lparr>pl_channelId := channel\<rparr>) w
                 in if reactive then updateVoiceState p (Some channel) w1 else w1)))"

text \<open>\<^verbatim>\<open>Player.connect(data)\<close>, named after the class, as \<open>connect\<close> is the node's.\<close>

definition player_connect :: "pref \<Rightarrow> voice_server_update \<Rightarrow> world \<Rightarrow> world" where
  "player_connect p data w =
     in_order
       [emit p ''connect'' NConnect,
        queueEvent p (VoiceUpdate (vs_guild_id data) (vs_session_id data) (vs_endpoint data) (vs_token data)),
        nextTick (EmitReady p)] w"

definition player_disconnect :: "pref \<Rightarrow> error option \<Rightarrow> world \<Rightarrow> world" where
  "player_disconnect p msg w =
     (case players w p of
        None \<Rightarrow> w
      | Some pl \<Rightarrow>
          in_order
            [upd_player p (\<lambda>pl. pl\<lparr>pl_playing := False\<rparr>),
             queueEvent p (Disconnect (pl_guildId pl)),
             emit p ''disconnect'' (NDisconnect msg)] w)"

definition stop :: "pref \<Rightarrow> world \<Rightarrow> world" where
  "stop p w =
     (case players w p of
        None \<Rightarrow> w
      | Some pl \<Rightarrow>
          in_order
            [queueEvent p (Stop (pl_guildId pl)),
             upd_player p
               (\<lambda>pl. pl\<lparr>pl_playing := False, pl_lastTrack := pl_track pl, pl_track := None\<rparr>)] w)"

definition stateUpdate :: "pref \<Rightarrow> player_state option \<Rightarrow> world \<Rightarrow> world" where
  "stateUpdate p st w = upd_player p (\<lambda>pl. pl\<lparr>pl_state := st\<rparr>) w"

definition onTrackEnd :: "pref \<Rightarrow> message \<Rightarrow> world \<Rightarrow> world" where
  "onTrackEnd p msg w =
     emit p ''end'' (NEnd msg)
       (if m_reason msg \<noteq> Some ''REPLACED''
        then upd_player p
               (\<lambda>pl. pl\<lparr>pl_playing := False, pl_lastTrack := pl_track pl, pl_track := None\<rparr>) w
        else w)"

definition onTrackException :: "pref \<Rightarrow> message \<Rightarrow> world \<Rightarrow> world" where
  "onTrackException p msg w = emit p ''error'' (NError msg) w"

definition onTrackStuck :: "pref \<Rightarrow> message \<Rightarrow> world \<Rightarrow> world" where
  "onTrackStuck p msg w = in_order [stop p, nextTick (EmitEnd p msg)] w"

section \<open>PlayerManager\<close>

text \<open>
  A call that can throw returns whether it did, with the state reached: what was done
  before the exception stays done, the rest of the caller is skipped.
\<close>

definition throw :: "js_error \<Rightarrow> world \<Rightarrow> bool \<times> world" where
  "throw e w = (True, w\<lparr>thrown := thrown w @ [e]\<rparr>)"

text \<open>
  The constructor of \<^verbatim>\<open>Lavalink\<close>: \<^verbatim>\<open>options.region || null\<close>,
  \<^verbatim>\<open>options.timeout || 5000\<close>, no cpu statistics yet, and \<^verbatim>\<open>connect()\<close>.
\<close>

definition new_Lavalink :: "host \<Rightarrow> string option \<Rightarrow> nat option \<Rightarrow> lavalink" where
  "new_Lavalink h region timeout =
     connect \<lparr>ll_host = h,
       ll_region = (case region of None \<Rightarrow> None | Some r \<Rightarrow> if r = [] then None else Some r),
       ll_connected = False, ll_draining = False, ll_retries = 0,
       ll_reconnectTimeout = (case timeout of None \<Rightarrow> 5000 | Some t \<Rightarrow> if t = 0 then 5000 else t),
       ll_reconnectInterval = None, ll_cpu = None, ll_ws = None\<rparr>"

text \<open>\<^verbatim>\<open>createNode(options)\<close> passes no \<^verbatim>\<open>timeout\<close> on.\<close>

definition createNode :: "host \<Rightarrow> string option \<Rightarrow> world \<Rightarrow> world" where
  "createNode h region w =
     (let n = next_id w
      in w\<lparr>lavalinks := (lavalinks w)(n \<mapsto> new_Lavalink h region None),
           nodes := AList.update h n (nodes w), next_id := Suc n\<rparr>)"

text \<open>
  \<^verbatim>\<open>switchNode(player, leave)\<close>. Reading \<^verbatim>\<open>player.state.position\<close> throws when the state
  is \<^verbatim>\<open>undefined\<close>. Then, in order: the end listeners are captured, removed and
  replaced by the one-shot listener that restores them; the registry entry is deleted;
  the player stops playing; the gateway or the node is told; the re-join is deferred to
  the next tick.
\<close>

definition end_listeners :: "player \<Rightarrow> listener list" where
  "end_listeners pl = map (\<lambda>(e, once, f). f) (filter (\<lambda>(e, once, f). e = ''end'') (pl_listeners pl))"

definition detach_end_listeners :: "pref \<Rightarrow> world \<Rightarrow> world" where
  "detach_end_listeners p w =
     (case players w p of
        None \<Rightarrow> w
      | Some pl \<Rightarrow>
          add_listener p ''end'' True (RestoreEnd (end_listeners pl))
            (foldl (\<lambda>w l. removeListener p ''end'' l False w) w (end_listeners pl)))"

text \<open>\<^verbatim>\<open>this.set(guildId, player)\<close> and \<^verbatim>\<open>this.delete(key)\<close> on the manager's own map.\<close>

definition registry_set :: "guildId \<Rightarrow> pref \<Rightarrow> world \<Rightarrow> world" where
  "registry_set g p w = w\<lparr>registry := AList.update (KString g) p (registry w)\<rparr>"

definition registry_delete :: "mapkey \<Rightarrow> world \<Rightarrow> world" where
  "registry_delete k w = w\<lparr>registry := AList.delete k (registry w)\<rparr>"

definition resume_position :: "player_state \<Rightarrow> world \<Rightarrow> nat" where
  "resume_position st w =
     (case position st of None \<Rightarrow> 0 | Some x \<Rightarrow> x) +
     (case reconnectThreshold w of None \<Rightarrow> 2000 | Some t \<Rightarrow> if t = 0 then 2000 else t)"

definition switchNode :: "pref \<Rightarrow> bool \<Rightarrow> world \<Rightarrow> bool \<times> world" where
  "switchNode p leave w =
     (case players w p of
        None \<Rightarrow> (False, w)
      | Some pl \<Rightarrow>
          (case pl_state pl of
             None \<Rightarrow> throw TypeError w
           | Some st \<Rightarrow>
               (False,
                in_order
                  [detach_end_listeners p,
                   registry_delete (KString (pl_guildId pl)),
                   upd_player p (\<lambda>pl. pl\<lparr>pl_playing := False\<rparr>),
                   (if leave then updateVoiceState p None
                    else node_send (pl_node pl) (Disconnect (pl_guildId pl))),
                   nextTick (Rejoin p (pl_guildId pl) (pl_channelId pl) (pl_track pl)
                               (resume_position st w))] w)))"

text \<open>The failover queue. Every job the code queues is a bound \<^verbatim>\<open>switchNode\<close>.\<close>

fun run_job :: "job \<Rightarrow> world \<Rightarrow> bool \<times> world" where
  "run_job (SwitchNode p leave) w = switchNode p leave w"

definition processQueue :: "job \<Rightarrow> world \<Rightarrow> bool \<times> world" where
  "processQueue fn w =
     (let (threw, w1) = run_job fn (w\<lparr>failover_log := failover_log w @ [(now w, fn)]\<rparr>)
      in if threw then (True, w1)
         else (False, snd (setTimeout CheckFailover (failoverRate w1) w1)))"

fun process_all :: "job list \<Rightarrow> world \<Rightarrow> bool \<times> world" where
  "process_all [] w = (False, w)"
| "process_all (fn # fns) w =
     (let (threw, w1) = processQueue fn w in if threw then (True, w1) else process_all fns w1)"

definition checkFailoverQueue :: "world \<Rightarrow> bool \<times> world" where
  "checkFailoverQueue w =
     (if length (failoverQueue w) > 0
      then (let fns = take (failoverLimit w) (failoverQueue w)
            in process_all fns (w\<lparr>failoverQueue := drop (failoverLimit w) (failoverQueue w)\<rparr>))
      else (False, w))"

definition queueFailover :: "job \<Rightarrow> world \<Rightarrow> bool \<times> world" where
  "queueFailover fn w =
     (if length (failoverQueue w) > 0
      then (False, w\<lparr>failoverQueue := failoverQueue w @ [fn]\<rparr>)
      else processQueue fn w)"

fun queue_all :: "job list \<Rightarrow> world \<Rightarrow> bool \<times> world" where
  "queue_all [] w = (False, w)"
| "queue_all (fn # fns) w =
     (let (threw, w1) = queueFailover fn w in if threw then (True, w1) else queue_all fns w1)"

text \<open>
  \<^verbatim>\<open>onDisconnect(node)\<close>: the players whose node has this node's host are collected
  first, then one failover is queued for each.
\<close>

definition onDisconnect :: "nref \<Rightarrow> world \<Rightarrow> bool \<times> world" where
  "onDisconnect n w =
     (case lavalinks w n of
        None \<Rightarrow> (False, w)
      | Some node \<Rightarrow>
          (let ps = filter
                 (\<lambda>p. case players w p of
                         None \<Rightarrow> False
                       | Some pl \<Rightarrow> (case lavalinks w (pl_node pl) of
                                       None \<Rightarrow> False
                                     | Some l \<Rightarrow> ll_host l = ll_host node))
                 (map snd (registry w))
           in queue_all (map (\<lambda>p. SwitchNode p True) ps) w))"

definition nodes_delete :: "host \<Rightarrow> world \<Rightarrow> world" where
  "nodes_delete h w = w\<lparr>nodes := AList.delete h (nodes w)\<rparr>"

text \<open>\<^verbatim>\<open>removeNode(host)\<close>; \<open>None\<close> is a call without the argument.\<close>

definition removeNode :: "host option \<Rightarrow> world \<Rightarrow> bool \<times> world" where
  "removeNode host w =
     (case host of
        None \<Rightarrow> (False, w)
      | Some h \<Rightarrow>
          if h = [] then (False, w)
          else (case map_of (nodes w) h of
                  None \<Rightarrow> (False, w)
                | Some n \<Rightarrow>
                    onDisconnect n (in_order [upd_node n destroy, nodes_delete h] w)))"

definition onError :: "nref \<Rightarrow> string \<Rightarrow> world \<Rightarrow> world" where
  "onError n err w = w\<lparr>client_errors := client_errors w @ [err]\<rparr>"

text \<open>
  \<^verbatim>\<open>leave(guildId)\<close>: the last statement is \<^verbatim>\<open>this.delete(player)\<close>, a deletion of the
  key that is the player object.
\<close>

definition leave :: "guildId \<Rightarrow> world \<Rightarrow> world" where
  "leave g w =
     (case map_of (registry w) (KString g) of
        None \<Rightarrow> w
      | Some p \<Rightarrow>
          in_order [player_disconnect p None, registry_delete (KObject p)] w)"

text \<open>The values of the node \<^verbatim>\<open>Map\<close>, in insertion order, each with its reference.\<close>

definition node_values :: "world \<Rightarrow> (nref \<times> lavalink) list" where
  "node_values w = List.map_filter (\<lambda>(h, n). map_option (Pair n) (lavalinks w n)) (nodes w)"

text \<open>\<^verbatim>\<open>String.prototype.replace\<close> with a string pattern replaces the first occurrence.\<close>

fun replace_first :: "string \<Rightarrow> string \<Rightarrow> string \<Rightarrow> string" where
  "replace_first pat rep [] = (if pat = [] then rep else [])"
| "replace_first pat rep (c # cs) =
     (if take (length pat) (c # cs) = pat then rep @ drop (length pat) (c # cs)
      else c # replace_first pat rep cs)"

definition startsWith :: "string \<Rightarrow> string \<Rightarrow> bool" where
  "startsWith s pre = (take (length pre) s = pre)"

text \<open>
  The loop of \<^verbatim>\<open>getRegionFromData\<close> over the keys of the region table: a key is skipped
  when no node has it as region or none of those is connected and not draining.
\<close>

fun region_loop :: "(nref \<times> lavalink) list \<Rightarrow> string \<Rightarrow> (string \<times> string list) list \<Rightarrow> string option" where
  "region_loop ns endpoint [] = None"
| "region_loop ns endpoint ((key, names) # rest) =
     (let here = filter (\<lambda>(n, l). ll_region l = Some key) ns
      in if here = [] then region_loop ns endpoint rest
         else if find (\<lambda>(n, l). ll_connected l \<and> \<not> ll_draining l) here = None
              then region_loop ns endpoint rest
         else if find (startsWith endpoint) names \<noteq> None then Some key
         else region_loop ns endpoint rest)"

definition getRegionFromData :: "string \<Rightarrow> world \<Rightarrow> string" where
  "getRegionFromData endpoint w =
     (let dflt = (case defaultRegion w of None \<Rightarrow> ''us'' | Some d \<Rightarrow> if d = [] then ''us'' else d)
      in if endpoint = [] then dflt
         else (case region_loop (node_values w) (replace_first ''vip-'' [] endpoint) (regions w) of
                 Some key \<Rightarrow> key
               | None \<Rightarrow> dflt))"

text \<open>
  The load the comparator of \<^verbatim>\<open>findIdealNode\<close> computes. Numbers are exact rationals
  here, not doubles; with \<^verbatim>\<open>cores = 0\<close> JavaScript yields an infinity or NaN, which this
  model does not represent, so the statements about loads ask for a core count that is
  not zero.
\<close>

definition load :: "lavalink \<Rightarrow> rat" where
  "load l = (case ll_cpu l of None \<Rightarrow> 0 | Some (systemLoad, cores) \<Rightarrow> systemLoad / cores * 100)"

text \<open>
  \<^verbatim>\<open>findIdealNode(region)\<close>. \<^verbatim>\<open>Array.prototype.sort\<close> with this comparator is a stable
  sort by load.
\<close>

definition findIdealNode :: "string \<Rightarrow> world \<Rightarrow> nref option" where
  "findIdealNode region w =
     (let nodes0 = filter (\<lambda>(n, l). \<not> ll_draining l \<and> ll_ws l \<noteq> None \<and> ll_connected l) (node_values w);
          regionalNodes = filter (\<lambda>(n, l). ll_region l = Some region) nodes0;
          nodes1 = (if region \<noteq> [] \<and> regionalNodes \<noteq> [] then regionalNodes else nodes0)
      in case sort_key (\<lambda>(n, l). load l) nodes1 of
           [] \<Rightarrow> None
         | (n, l) # _ \<Rightarrow> Some n)"

text \<open>
  \<^verbatim>\<open>join(guildId, channelId, options, player)\<close>. \<open>region\<close> is \<^verbatim>\<open>options.region\<close>
  (\<open>None\<close> without options). \<open>join_player\<close> is \<^verbatim>\<open>player || this.get(guildId)\<close>,
  \<open>switch_target\<close> the player to switch when \<^verbatim>\<open>player && player.channelId !== channelId\<close>,
  \<open>region_or_us\<close> is \<^verbatim>\<open>options.region || 'us'\<close>. The promise executor runs at once up to
  \<^verbatim>\<open>await this.findIdealNode(region)\<close>; what follows the \<^verbatim>\<open>await\<close> runs as a microtask.
  \<open>join_executor\<close> is the first part: it returns the promise and the microtask, if any.
  \<open>cont\<close> is a continuation the caller attaches to the promise.
\<close>

definition join_player :: "guildId \<Rightarrow> pref option \<Rightarrow> world \<Rightarrow> pref option" where
  "join_player g playerArg w =
     (case playerArg of Some p \<Rightarrow> Some p | None \<Rightarrow> map_of (registry w) (KString g))"

definition switch_target :: "channelId \<Rightarrow> pref option \<Rightarrow> world \<Rightarrow> pref option" where
  "switch_target c player w =
     (case player of
        None \<Rightarrow> None
      | Some p \<Rightarrow> (case players w p of
                    None \<Rightarrow> None
                  | Some pl \<Rightarrow> if pl_channelId pl \<noteq> c then Some p else None))"

definition region_or_us :: "string option \<Rightarrow> string" where
  "region_or_us region = (case region of None \<Rightarrow> ''us'' | Some r \<Rightarrow> if r = [] then ''us'' else r)"

definition join_executor ::
  "guildId \<Rightarrow> channelId \<Rightarrow> string option \<Rightarrow> pref option \<Rightarrow> continuation option \<Rightarrow> world
     \<Rightarrow> promise \<times> microtask option \<times> world" where
  "join_executor g c region playerArg cont w =
     (let pr = next_id w;
          w0 = w\<lparr>next_id := Suc pr, conts := (conts w)(pr := cont)\<rparr>;
          player = join_player g playerArg w0
      in case switch_target c player w0 of
           Some p \<Rightarrow> (pr, None, in_order [switchChannel p c False, settle pr (Resolved p)] w0)
         | None \<Rightarrow>
             (pr,
              Some (JoinResume pr g c region player
                      (findIdealNode (getRegionFromData (region_or_us region) w0) w0)),
              w0))"

definition join_resume ::
  "promise \<Rightarrow> guildId \<Rightarrow> channelId \<Rightarrow> string option \<Rightarrow> pref option \<Rightarrow> nref option \<Rightarrow> world \<Rightarrow> world" where
  "join_resume pr g c region player node w =
     (case node of
        None \<Rightarrow> settle pr (Rejected NoAvailableVoiceNodes) w
      | Some n \<Rightarrow>
          (let (h, w1) = setTimeout (JoinTimeout g pr n) 10000 w;
               w2 = w1\<lparr>pendingGuilds := (pendingGuilds w1)(g \<mapsto>
                      \<lparr>pg_channelId = c, pg_options = region, pg_player = player, pg_node = n,
                       pg_promise = pr, pg_timeout = Some h\<rparr>)\<rparr>
           in node_send n (Connect g c) w2))"

text \<open>The callback of the 10 second timer of a pending join.\<close>

definition join_timeout :: "guildId \<Rightarrow> promise \<Rightarrow> nref \<Rightarrow> world \<Rightarrow> world" where
  "join_timeout g pr n w =
     in_order
       [node_send n (Disconnect g),
        pending_delete g,
        settle pr (Rejected VoiceConnectionTimeout)] w"

text \<open>The constructor of \<^verbatim>\<open>Player\<close>: the state is the empty object.\<close>

definition new_Player :: "string \<Rightarrow> channelId \<Rightarrow> nref \<Rightarrow> player" where
  "new_Player g c n =
     \<lparr>pl_id = g, pl_guildId = g, pl_channelId = c, pl_node = n, pl_playing = False,
      pl_state = Some (PlayerState None), pl_track = None, pl_lastTrack = None,
      pl_playOptions = None, pl_receivedEvents = [], pl_sendQueue = [], pl_listeners = [],
      pl_emitted = []\<rparr>"

text \<open>
  The last statement of \<^verbatim>\<open>voiceServerUpdate\<close>: a fresh pair of one-shot handlers on the
  player.
\<close>

definition register_handlers :: "pref \<Rightarrow> guildId \<Rightarrow> world \<Rightarrow> world" where
  "register_handlers p g w =
     (let h = next_id w
      in add_listener p ''disconnect'' True (DisconnectHandler h g)
           (add_listener p ''ready'' True (ReadyHandler h g) (w\<lparr>next_id := Suc h\<rparr>)))"

text \<open>
  \<^verbatim>\<open>voiceServerUpdate(data)\<close>, in the order of its statements: the timer of a pending
  join is cleared; without a player in the registry and with a pending join, the pending
  join's player (updated and registered) or a new player is registered and connected;
  at the end the handlers are attached to the player.
\<close>

definition clear_pending_timeout :: "guildId \<Rightarrow> world \<Rightarrow> world" where
  "clear_pending_timeout g w =
     (case pendingGuilds w g of
        None \<Rightarrow> w
      | Some e \<Rightarrow>
          (case pg_timeout e of
             None \<Rightarrow> w
           | Some h \<Rightarrow>
               (clearTimeout h w)\<lparr>pendingGuilds := (pendingGuilds w)(g \<mapsto> e\<lparr>pg_timeout := None\<rparr>)\<rparr>))"

definition pending_player :: "guildId \<Rightarrow> pending \<Rightarrow> world \<Rightarrow> pref \<times> world" where
  "pending_player g e w =
     (case pg_player e of
        Some p \<Rightarrow> (p, registry_set g p (upd_player p (\<lambda>pl. pl\<lparr>pl_node := pg_node e\<rparr>) w))
      | None \<Rightarrow>
          (next_id w,
           w\<lparr>players := (players w)(next_id w \<mapsto> new_Player g (pg_channelId e) (pg_node e)),
             next_id := Suc (next_id w)\<rparr>))"

definition connect_pending :: "voice_server_update \<Rightarrow> pref \<times> world \<Rightarrow> world" where
  "connect_pending data pw =
     register_handlers (fst pw) (vs_guild_id data)
       (player_connect (fst pw) data (registry_set (vs_guild_id data) (fst pw) (snd pw)))"

definition attach_player :: "voice_server_update \<Rightarrow> world \<Rightarrow> world" where
  "attach_player data w =
     (case map_of (registry w) (KString (vs_guild_id data)) of
        Some p \<Rightarrow> register_handlers p (vs_guild_id data) w
      | None \<Rightarrow>
          (case pendingGuilds w (vs_guild_id data) of
             None \<Rightarrow> w
           | Some e \<Rightarrow> connect_pending data (pending_player (vs_guild_id data) e w)))"

definition voiceServerUpdate :: "voice_server_update \<Rightarrow> world \<Rightarrow> world" where
  "voiceServerUpdate data w = attach_player data (clear_pending_timeout (vs_guild_id data) w)"

text \<open>
  \<^verbatim>\<open>onMessage(node, message)\<close>, one definition per \<^verbatim>\<open>case\<close> of the \<^verbatim>\<open>switch\<close>. The
  \<^verbatim>\<open>sendWS\<close> case ends without \<^verbatim>\<open>break\<close> or \<^verbatim>\<open>return\<close>, so control goes on into the
  \<^verbatim>\<open>playerUpdate\<close> case.
\<close>

definition key_of :: "string option \<Rightarrow> mapkey" where
  "key_of g = (case g of None \<Rightarrow> KUndefined | Some s \<Rightarrow> KString s)"

definition truthy :: "string option \<Rightarrow> bool" where
  "truthy s = (case s of None \<Rightarrow> False | Some x \<Rightarrow> x \<noteq> [])"

definition on_validationReq :: "nref \<Rightarrow> message \<Rightarrow> world \<Rightarrow> world" where
  "on_validationReq n msg w =
     (let guildValid = (case m_guildId msg of
                          None \<Rightarrow> True
                        | Some g \<Rightarrow> if g = [] then True else g \<in> set (client_guilds w));
          voiceChannel = (case m_channelId msg of
                            None \<Rightarrow> None
                          | Some c \<Rightarrow> if c \<noteq> [] \<and> c \<in> set (client_channels w) then Some c else None);
          channelValid = (if truthy (m_channelId msg) then voiceChannel \<noteq> None else True)
      in node_send n (ValidationRes (m_guildId msg) voiceChannel (guildValid \<and> channelValid)) w)"

definition on_isConnectedReq :: "nref \<Rightarrow> message \<Rightarrow> world \<Rightarrow> world" where
  "on_isConnectedReq n msg w = node_send n (IsConnectedRes (m_shardId msg) (client_status w = 0)) w"

definition on_sendWS :: "message \<Rightarrow> world \<Rightarrow> bool \<times> world" where
  "on_sendWS msg w =
     (case m_message msg of
        None \<Rightarrow> throw SyntaxError w
      | Some payload \<Rightarrow>
          (let w1 = w\<lparr>gateway := gateway w @ [payload]\<rparr>
           in if gp_op payload = 4
              then (case gp_d payload of
                      None \<Rightarrow> throw TypeError w1
                    | Some d \<Rightarrow>
                        if \<not> truthy (d_channel_id d)
                        then (False, registry_delete (key_of (d_guild_id d)) w1)
                        else (False, w1))
              else (False, w1)))"

definition on_playerUpdate :: "message \<Rightarrow> world \<Rightarrow> world" where
  "on_playerUpdate msg w =
     (case map_of (registry w) (key_of (m_guildId msg)) of
        None \<Rightarrow> w
      | Some p \<Rightarrow> stateUpdate p (m_state msg) w)"

definition on_event :: "message \<Rightarrow> world \<Rightarrow> world" where
  "on_event msg w =
     (case map_of (registry w) (key_of (m_guildId msg)) of
        None \<Rightarrow> w
      | Some p \<Rightarrow>
          if m_type msg = Some ''TrackEndEvent'' then onTrackEnd p msg w
          else if m_type msg = Some ''TrackExceptionEvent'' then onTrackException p msg w
          else if m_type msg = Some ''TrackStuckEvent'' then onTrackStuck p msg w
          else emit p ''warn''
                 (NWarn (''Unexpected event type: '' @ (case m_type msg of None \<Rightarrow> ''undefined'' | Some t \<Rightarrow> t))) w)"

definition onMessage :: "nref \<Rightarrow> message \<Rightarrow> world \<Rightarrow> world" where
  "onMessage n msg w =
     (if \<not> truthy (m_op msg) then w
      else if m_op msg = Some ''validationReq'' then on_validationReq n msg w
      else if m_op msg = Some ''isConnectedReq'' then on_isConnectedReq n msg w
      else if m_op msg = Some ''sendWS''
           then (let (threw, w1) = on_sendWS msg w in if threw then w1 else on_playerUpdate msg w1)
      else if m_op msg = Some ''playerUpdate'' then on_playerUpdate msg w
      else if m_op msg = Some ''event'' then on_event msg w
      else w)"

text \<open>
  \<^verbatim>\<open>play(track, options)\<close>. On a draining node nothing is sent: the position is reset
  (an exception when the state is \<^verbatim>\<open>undefined\<close>) and the player is switched to another
  node, \<^verbatim>\<open>leave\<close> not being passed.
\<close>

definition play :: "pref \<Rightarrow> track option \<Rightarrow> play_options option \<Rightarrow> world \<Rightarrow> bool \<times> world" where
  "play p tr options w =
     (case players w p of
        None \<Rightarrow> (False, w)
      | Some pl0 \<Rightarrow>
          (let w1 = upd_player p
                      (\<lambda>pl. pl\<lparr>pl_lastTrack := pl_track pl, pl_track := tr, pl_playOptions := options\<rparr>) w
           in case lavalinks w1 (pl_node pl0) of
                None \<Rightarrow> throw TypeError w1
              | Some l \<Rightarrow>
                  if ll_draining l
                  then (case pl_state pl0 of
                          None \<Rightarrow> throw TypeError w1
                        | Some st \<Rightarrow>
                            switchNode p False
                              (upd_player p (\<lambda>pl. pl\<lparr>pl_state := Some (PlayerState (Some 0))\<rparr>) w1))
                  else (False, upd_player p (\<lambda>pl. pl\<lparr>pl_playing := True\<rparr>)
                                 (queueEvent p (Play (pl_guildId pl0) tr options) w1))))"

text \<open>
  The \<^verbatim>\<open>then\<close> and \<^verbatim>\<open>catch\<close> callbacks \<^verbatim>\<open>switchNode\<close> attaches to the re-join. The
  \<^verbatim>\<open>catch\<close> also receives an exception of the \<^verbatim>\<open>then\<close> callback, which is then no
  longer uncaught.
\<close>

fun run_cont :: "continuation \<Rightarrow> outcome \<Rightarrow> world \<Rightarrow> world" where
  "run_cont (Rehome q g tr pos) (Resolved p) w =
     (let (threw, w1) = play p tr (Some [(''startTime'', JNum pos)]) w
      in if threw
         then player_disconnect q (Some (Caught TypeError)) (w1\<lparr>thrown := butlast (thrown w1)\<rparr>)
         else in_order [emit p ''reconnect'' NReconnect, registry_set g p] w1)"
| "run_cont (Rehome q g tr pos) (Rejected err) w = player_disconnect q (Some err) w"

fun run_microtask :: "microtask \<Rightarrow> world \<Rightarrow> world" where
  "run_microtask (JoinResume pr g c region player node) w = join_resume pr g c region player node w"
| "run_microtask (Settled k out) w = run_cont k out w"

text \<open>
  \<open>join_begin\<close> is the call of \<^verbatim>\<open>join\<close> as the event loop sees it: the rest is queued.
  \<open>join\<close> is the call together with its own continuation, which is what happens when
  no queued callback runs in between.
\<close>

definition join_begin ::
  "guildId \<Rightarrow> channelId \<Rightarrow> string option \<Rightarrow> pref option \<Rightarrow> continuation option \<Rightarrow> world
     \<Rightarrow> promise \<times> world" where
  "join_begin g c region playerArg cont w =
     (let (pr, m, w1) = join_executor g c region playerArg cont w
      in (pr, case m of None \<Rightarrow> w1 | Some t \<Rightarrow> w1\<lparr>microtasks := microtasks w1 @ [t]\<rparr>))"

definition join ::
  "guildId \<Rightarrow> channelId \<Rightarrow> string option \<Rightarrow> pref option \<Rightarrow> world \<Rightarrow> promise \<times> world" where
  "join g c region playerArg w =
     (let (pr, m, w1) = join_executor g c region playerArg None w
      in (pr, case m of None \<Rightarrow> w1 | Some t \<Rightarrow> run_microtask t w1))"

text \<open>The callbacks given to \<^verbatim>\<open>process.nextTick\<close> and to \<^verbatim>\<open>setTimeout\<close>.\<close>

fun run_task :: "task \<Rightarrow> world \<Rightarrow> world" where
  "run_task (CheckEventQueue p) w = checkEventQueue p w"
| "run_task (EmitReady p) w = emit p ''ready'' NReady w"
| "run_task (EmitEnd p msg) w = emit p ''end'' (NEnd msg) w"
| "run_task (Rejoin q g c tr pos) w = snd (join_begin g c None (Some q) (Some (Rehome q g tr pos)) w)"

fun run_timer :: "timer_action \<Rightarrow> world \<Rightarrow> world" where
  "run_timer (Reconnect n) w = reconnect n w"
| "run_timer CheckFailover w = snd (checkFailoverQueue w)"
| "run_timer (JoinTimeout g pr n) w = join_timeout g pr n w"

text \<open>
  \<^verbatim>\<open>disconnected()\<close>, the close handler of the socket. The manager's \<^verbatim>\<open>onDisconnect\<close>
  listens to the node's disconnect event.
\<close>

definition disconnected :: "nref \<Rightarrow> world \<Rightarrow> bool \<times> world" where
  "disconnected n w =
     (case lavalinks w n of
        None \<Rightarrow> (False, w)
      | Some l0 \<Rightarrow>
          (let w1 = upd_node n (\<lambda>l. l\<lparr>ll_connected := False\<rparr>) w;
               (threw, w2) = (if ll_reconnectInterval l0 = None then onDisconnect n w1 else (False, w1))
           in if threw then (True, w2)
              else (let w3 = upd_node n (\<lambda>l. l\<lparr>ll_ws := None\<rparr>) w2
                    in if ll_reconnectInterval l0 = None
                       then (let (h, w4) = setTimeout (Reconnect n) (ll_reconnectTimeout l0) w3
                             in (False, upd_node n (\<lambda>l. l\<lparr>ll_reconnectInterval := Some h\<rparr>) w4))
                       else (False, w3))))"

text \<open>
  \<^verbatim>\<open>Lavalink.onMessage(message)\<close>; \<open>None\<close> is a text \<^verbatim>\<open>JSON.parse\<close> rejects. A stats
  report replaces \<^verbatim>\<open>this.stats\<close>; every parsed message goes on to the manager.
\<close>

definition lavalink_onMessage :: "nref \<Rightarrow> message option \<Rightarrow> world \<Rightarrow> world" where
  "lavalink_onMessage n parsed w =
     (case parsed of
        None \<Rightarrow> onError n ''Unable to parse ws message.'' w
      | Some data \<Rightarrow>
          onMessage n data
            (if m_op data = Some ''stats'' then upd_node n (\<lambda>l. l\<lparr>ll_cpu := m_cpu data\<rparr>) w else w))"

section \<open>Schedules\<close>




text \<open>What a node's socket was handed, and what a player still holds back.\<close>

definition wire :: "world \<Rightarrow> nref \<Rightarrow> payload list" where
  "wire w n =
     (case lavalinks w n of
        None \<Rightarrow> []
      | Some l \<Rightarrow> (case ll_ws l of None \<Rightarrow> [] | Some ws \<Rightarrow> sk_frames ws))"

definition queued :: "world \<Rightarrow> pref \<Rightarrow> payload list" where
  "queued w p = (case players w p of None \<Rightarrow> [] | Some pl \<Rightarrow> pl_sendQueue pl)"

definition history :: "world \<Rightarrow> pref \<Rightarrow> payload list" where
  "history w p = (case players w p of None \<Rightarrow> [] | Some pl \<Rightarrow> pl_receivedEvents pl)"

text \<open>
  Everything that can happen to the process, one event at a time: calls of the public
  methods (\<^verbatim>\<open>join\<close> up to its \<^verbatim>\<open>await\<close>, \<^verbatim>\<open>leave\<close>, \<^verbatim>\<open>play\<close>, \<^verbatim>\<open>stop\<close>,
  \<^verbatim>\<open>disconnect\<close>, \<^verbatim>\<open>createNode\<close>, \<^verbatim>\<open>removeNode\<close>), a voice server update from the
  gateway, the socket of a node opening (the node has a socket then), closing (the close
  handler is called while it is attached) or delivering a message, the event loop running the oldest
  \<^verbatim>\<open>nextTick\<close> callback or the oldest microtask, a timer that is armed and due firing,
  time passing. The ready emission of a player is one of the \<^verbatim>\<open>nextTick\<close> callbacks.
\<close>

datatype event =
    Joins guildId channelId "string option" "pref option"
  | Leaves guildId
  | Plays pref "track option" "play_options option"
  | Stops pref
  | Disconnects pref "error option"
  | CreatesNode host "string option"
  | RemovesNode "host option"
  | VoiceServer voice_server_update
  | Opens nref
  | Closes nref
  | Receives nref "message option"
  | NextTick
  | Microtask
  | Fires handle
  | Elapses nat

definition socket_opens :: "nref \<Rightarrow> world \<Rightarrow> world" where
  "socket_opens n w =
     (case lavalinks w n of
        None \<Rightarrow> w
      | Some l \<Rightarrow> (case ll_ws l of None \<Rightarrow> w | Some ws \<Rightarrow> ready n w))"

definition socket_closes :: "nref \<Rightarrow> world \<Rightarrow> world" where
  "socket_closes n w =
     (case lavalinks w n of
        None \<Rightarrow> w
      | Some l \<Rightarrow>
          (case ll_ws l of
             None \<Rightarrow> w
           | Some ws \<Rightarrow> if sk_close_hooked ws then snd (disconnected n w) else w))"

definition next_tick :: "world \<Rightarrow> world" where
  "next_tick w = (case ticks w of [] \<Rightarrow> w | t # ts \<Rightarrow> run_task t (w\<lparr>ticks := ts\<rparr>))"

definition next_microtask :: "world \<Rightarrow> world" where
  "next_microtask w =
     (case microtasks w of [] \<Rightarrow> w | m # ms \<Rightarrow> run_microtask m (w\<lparr>microtasks := ms\<rparr>))"

definition fires :: "handle \<Rightarrow> world \<Rightarrow> world" where
  "fires h w =
     (case find (\<lambda>t. fst t = h) (timers w) of
        None \<Rightarrow> w
      | Some (_, due, a) \<Rightarrow> if due \<le> now w then run_timer a (clearTimeout h w) else w)"

fun step :: "event \<Rightarrow> world \<Rightarrow> world" where
  "step (Joins g c region player) w = snd (join_begin g c region player None w)"
| "step (Leaves g) w = leave g w"
| "step (Plays p tr options) w = snd (play p tr options w)"
| "step (Stops p) w = stop p w"
| "step (Disconnects p msg) w = player_disconnect p msg w"
| "step (CreatesNode h region) w = createNode h region w"
| "step (RemovesNode h) w = snd (removeNode h w)"
| "step (VoiceServer data) w = voiceServerUpdate data w"
| "step (Opens n) w = socket_opens n w"
| "step (Closes n) w = socket_closes n w"
| "step (Receives n parsed) w = lavalink_onMessage n parsed w"
| "step NextTick w = next_tick w"
| "step Microtask w = next_microtask w"
| "step (Fires h) w = fires h w"
| "step (Elapses d) w = w\<lparr>now := now w + d\<rparr>"

text \<open>
  The events the handshake of a join is made of: voice server updates, the deferred
  callbacks (ready emissions), disconnections of players, timers, time.
\<close>

fun handshake :: "event \<Rightarrow> bool" where
  "handshake (VoiceServer data) = True"
| "handshake NextTick = True"
| "handshake (Disconnects p msg) = True"
| "handshake (Fires h) = True"
| "handshake (Elapses d) = True"
| "handshake _ = False"

fun run :: "event list \<Rightarrow> world \<Rightarrow> world" where
  "run [] w = w"
| "run (e # es) w = run es (step e w)"

section \<open>Construction and example states\<close>

record manager_options =
  o_defaultRegion :: "string option"
  o_failoverRate :: "nat option"
  o_failoverLimit :: "nat option"
  o_reconnectThreshold :: "nat option"
  o_regions :: "(string \<times> string list) list option"

definition defaultRegions :: "(string \<times> string list) list" where
  "defaultRegions =
     [(''asia'', [''hongkong'', ''singapore'', ''sydney'']),
      (''eu'', [''eu'', ''amsterdam'', ''frankfurt'', ''russia'']),
      (''us'', [''us'', ''brazil''])]"

text \<open>
  The constructor of \<^verbatim>\<open>PlayerManager\<close>, given the (host, region) of each node:
  \<^verbatim>\<open>failoverRate || 250\<close>, \<^verbatim>\<open>failoverLimit || 1\<close>, \<^verbatim>\<open>regions || defaultRegions\<close>, then
  one \<^verbatim>\<open>createNode\<close> per node. The clock starts at 0.
\<close>

definition new_PlayerManager :: "(host \<times> string option) list \<Rightarrow> manager_options \<Rightarrow> world" where
  "new_PlayerManager ns opts =
     foldl (\<lambda>w (h, r). createNode h r w)
       \<lparr>now = 0, next_id = 0, lavalinks = Map.empty, players = Map.empty, nodes = [],
        registry = [], pendingGuilds = Map.empty, failoverQueue = [],
        failoverRate = (case o_failoverRate opts of None \<Rightarrow> 250 | Some r \<Rightarrow> if r = 0 then 250 else r),
        failoverLimit = (case o_failoverLimit opts of None \<Rightarrow> 1 | Some k \<Rightarrow> if k = 0 then 1 else k),
        defaultRegion = o_defaultRegion opts, reconnectThreshold = o_reconnectThreshold opts,
        regions = (case o_regions opts of None \<Rightarrow> defaultRegions | Some r \<Rightarrow> r),
        client_guilds = [], client_channels = [], client_status = 0, client_errors = [],
        gateway = [], settlements = [], conts = Map.empty, timers = [], ticks = [],
        microtasks = [], thrown = [], failover_log = []\<rparr>
       ns"

definition no_options :: manager_options where
  "no_options =
     \<lparr>o_defaultRegion = None, o_failoverRate = None, o_failoverLimit = None,
      o_reconnectThreshold = None, o_regions = None\<rparr>"

text \<open>A manager with one node in region eu, just constructed: the node is reference 0.\<close>

definition one_node :: world where
  "one_node = new_PlayerManager [(''localhost'', Some ''eu'')] no_options"

text \<open>
  A voice server update for a guild, and the full handshake of a join as the event loop
  runs it when nothing else happens: the call, the voice server update, the two deferred
  callbacks (queue check, ready emission).
\<close>

definition vsu :: "guildId \<Rightarrow> voice_server_update" where
  "vsu g = \<lparr>vs_guild_id = g, vs_session_id = ''s'', vs_endpoint = ''e'', vs_token = ''t''\<rparr>"

definition establish :: "guildId \<Rightarrow> channelId \<Rightarrow> world \<Rightarrow> world" where
  "establish g c w = run [VoiceServer (vsu g), NextTick, NextTick] (snd (join g c None None w))"

text \<open>
  The example states: the node of \<open>one_node\<close> has opened its socket and a session for
  guild g1 in channel c1 has been established (the player is reference 3); then two more
  sessions, for g2 and g3 (references 7 and 11).
\<close>

definition session :: world where
  "session = establish ''g1'' ''c1'' (ready 0 one_node)"

definition three_sessions :: world where
  "three_sessions = establish ''g3'' ''c3'' (establish ''g2'' ''c2'' session)"

definition session_player :: player where
  "session_player =
     \<lparr>pl_id = ''g1'', pl_guildId = ''g1'', pl_channelId = ''c1'', pl_node = 0,
      pl_playing = False, pl_state = Some (PlayerState None),
      pl_track = None, pl_lastTrack = None, pl_playOptions = None,
      pl_receivedEvents = [VoiceUpdate ''g1'' ''s'' ''e'' ''t''],
      pl_sendQueue = [], pl_listeners = [], pl_emitted = [NConnect, NReady]\<rparr>"

text \<open>
  A raw-relay message that also carries a guild id and a state: the relayed payload is a
  voice state update for g2 with a channel.
\<close>

definition relay :: message where
  "relay =
     \<lparr>m_op = Some ''sendWS'', m_guildId = Some ''g1'', m_channelId = None, m_shardId = Some 0,
      m_message = Some \<lparr>gp_op = 4,
        gp_d = Some \<lparr>d_guild_id = Some ''g2'', d_channel_id = Some ''c2'',
                      d_self_mute = Some False, d_self_deaf = Some False\<rparr>\<rparr>,
      m_state = Some (PlayerState (Some 5)), m_type = None, m_reason = None, m_cpu = None\<rparr>"

section \<open>Observations\<close>

text \<open>A player without its listeners: the part no listener can change.\<close>

definition core :: "player \<Rightarrow> player" where
  "core pl = pl\<lparr>pl_listeners := []\<rparr>"

text \<open>The session of the example state playing track A, and two track-end messages.\<close>

definition playing_session :: world where
  "playing_session = snd (play 3 (Some ''A'') None session)"

definition replaced :: message where
  "replaced =
     \<lparr>m_op = Some ''event'', m_guildId = Some ''g1'', m_channelId = None, m_shardId = None,
      m_message = None, m_state = None, m_type = Some ''TrackEndEvent'',
      m_reason = Some ''REPLACED'', m_cpu = None\<rparr>"

definition finished :: message where
  "finished = replaced\<lparr>m_reason := Some ''FINISHED''\<rparr>"

text \<open>The keys of the registry are pairwise different, as the keys of a \<^verbatim>\<open>Map\<close> are.\<close>

definition keys_distinct :: "world \<Rightarrow> bool" where
  "keys_distinct w = distinct (map fst (registry w))"

section \<open>Node selection as the specification words it\<close>







text \<open>Player \<open>p\<close> exists and is bound to node \<open>n\<close>, which exists and has a socket.\<close>

definition attached :: "pref \<Rightarrow> nref \<Rightarrow> world \<Rightarrow> bool" where
  "attached p n w =
     (\<exists>pl l. players w p = Some pl \<and> pl_node pl = n \<and> lavalinks w n = Some l \<and> ll_ws l \<noteq> None)"


section \<open>Evaluating the model\<close>

lemmas model_defs = one_node_def new_PlayerManager_def createNode_def no_options_def new_Lavalink_def
  connect_def new_socket_def ready_def upd_node_def upd_player_def join_def join_executor_def
  join_player_def switch_target_def region_or_us_def socket_opens_def
  getRegionFromData_def findIdealNode_def node_values_def List.map_filter_def load_def
  join_resume_def setTimeout_def clearTimeout_def node_send_def send_def settle_def
  voiceServerUpdate_def new_Player_def player_connect_def emit_def queueEvent_def sendEvent_def
  checkEventQueue_def register_handlers_def add_listener_def removeListener_def
  readyHandler_def disconnectHandler_def defaultRegions_def startsWith_def
  play_def switchNode_def vsu_def establish_def Let_def numeral_2_eq_2[symmetric]
  next_tick_def next_microtask_def fires_def socket_closes_def
  player_disconnect_def leave_def onMessage_def on_sendWS_def on_playerUpdate_def truthy_def
  key_of_def stateUpdate_def onDisconnect_def queueFailover_def processQueue_def
  updateVoiceState_def switchChannel_def throw_def
  clear_pending_timeout_def registry_set_def pending_player_def connect_pending_def attach_player_def
  pending_delete_def nextTick_def registry_delete_def nodes_delete_def detach_end_listeners_def
  end_listeners_def resume_position_def

lemma session_eq:
  "session =
     \<lparr>now = 0, next_id = 5,
      lavalinks = [0 \<mapsto> \<lparr>ll_host = ''localhost'', ll_region = Some ''eu'', ll_connected = True,
         ll_draining = False, ll_retries = 0, ll_reconnectTimeout = 5000,
         ll_reconnectInterval = None, ll_cpu = None,
         ll_ws = Some \<lparr>sk_frames = [Connect ''g1'' ''c1'', VoiceUpdate ''g1'' ''s'' ''e'' ''t''],
           sk_close_hooked = True, sk_closed = False\<rparr>\<rparr>],
      players = [3 \<mapsto> session_player],
      nodes = [(''localhost'', 0)], registry = [(KString ''g1'', 3)],
      pendingGuilds = Map.empty, failoverQueue = [], failoverRate = 250,
      failoverLimit = 1, defaultRegion = None, reconnectThreshold = None,
      regions = defaultRegions,
      client_guilds = [], client_channels = [], client_status = 0,
      client_errors = [], gateway = [], settlements = [(1, Resolved 3)],
      conts = Map.empty, timers = [], ticks = [], microtasks = [], thrown = [],
      failover_log = []\<rparr>"
  unfolding session_def session_player_def
  by (simp add: model_defs)

lemma three_sessions_registry:
  "registry three_sessions = [(KString ''g1'', 3), (KString ''g2'', 7), (KString ''g3'', 11)]"
  unfolding three_sessions_def
  by (simp add: session_eq session_player_def model_defs)

section \<open>Reconnect backoff\<close>







section \<open>Removing a node\<close>

text \<open>
  C10. \<^verbatim>\<open>removeNode(host)\<close> called without a host, or with a host that is not a key of
  the node map, returns without throwing and leaves the whole state as it was: the node
  map, the registry of sessions, the failover queue and its log, and every node object
  (none is destroyed).
\<close>

theorem C10_removeNode_unknown_host:
  assumes "case host of None \<Rightarrow> True | Some h \<Rightarrow> map_of (nodes w) h = None"
  shows "removeNode host w = (False, w)"
  using assms by (simp add: removeNode_def split: option.splits)

theorem C10_removeNode_unknown_host_witness:
  "map_of (nodes session) ''elsewhere'' = None
   \<and> removeNode (Some ''elsewhere'') session = (False, session)
   \<and> removeNode None session = (False, session)"
  using C10_removeNode_unknown_host[where host="Some ''elsewhere''" and w=session]
    C10_removeNode_unknown_host[where host=None and w=session]
  by (simp add: session_eq)

section \<open>Leaving\<close>

text \<open>
  C5 (the code at its failing input). In the example state the registry holds the
  session of guild g1. \<^verbatim>\<open>leave('g1')\<close> disconnects it (the node is handed a disconnect
  for g1), but the final \<^verbatim>\<open>this.delete(player)\<close> deletes the key that is the player
  object, which no entry has: a lookup of g1 afterwards still finds the session.
\<close>

theorem C5_leave_keeps_registry:
  "map_of (registry session) (KString ''g1'') = Some 3
   \<and> map_of (registry (leave ''g1'' session)) (KString ''g1'') = Some 3
   \<and> wire (leave ''g1'' session) 0 = wire session 0 @ [Disconnect ''g1'']"
  by (simp add: session_eq session_player_def wire_def model_defs)

section \<open>Raw relay messages\<close>

text \<open>
  C9 (the code at its failing input). The message \<open>relay\<close> has op \<^verbatim>\<open>sendWS\<close>; its
  payload is forwarded to the gateway, and as the \<^verbatim>\<open>sendWS\<close> case does not end the
  \<^verbatim>\<open>switch\<close>, the \<^verbatim>\<open>playerUpdate\<close> case runs too: the session of the guild the message
  names gets \<^verbatim>\<open>stateUpdate(message.state)\<close>, and its state changes.
\<close>

theorem C9_sendWS_falls_through:
  "map_option pl_state (players session 3) = Some (Some (PlayerState None))
   \<and> map_option pl_state (players (onMessage 0 relay session) 3) = Some (Some (PlayerState (Some 5)))
   \<and> onMessage 0 relay session =
       stateUpdate 3 (m_state relay) (session\<lparr>gateway := gateway session @ [the (m_message relay)]\<rparr>)"
  by (simp add: session_eq session_player_def relay_def model_defs)

section \<open>The failover queue\<close>

text \<open>
  C6 (the code at its failing input). With \<^verbatim>\<open>failoverLimit\<close> 1 and \<^verbatim>\<open>failoverRate\<close>
  250, the node of three sessions disconnects: \<^verbatim>\<open>onDisconnect\<close> queues three failover
  jobs. \<^verbatim>\<open>queueFailover\<close> appends only to a queue that is not empty, and the queue is
  empty, so each job runs at once: all three run at time 0 and the queue stays empty.
\<close>

theorem C6_failover_not_limited:
  "failoverLimit three_sessions = 1 \<and> failoverRate three_sessions = 250
   \<and> now three_sessions = 0
   \<and> failover_log (snd (onDisconnect 0 three_sessions)) =
       [(0, SwitchNode 3 True), (0, SwitchNode 7 True), (0, SwitchNode 11 True)]
   \<and> failoverQueue (snd (onDisconnect 0 three_sessions)) = []"
  unfolding three_sessions_def
  by (simp add: session_eq session_player_def model_defs)

section \<open>What each primitive leaves alone\<close>

lemma upd_player_frame [simp]:
  "now (upd_player p f w) = now w"
  "next_id (upd_player p f w) = next_id w"
  "lavalinks (upd_player p f w) = lavalinks w"
  "nodes (upd_player p f w) = nodes w"
  "registry (upd_player p f w) = registry w"
  "pendingGuilds (upd_player p f w) = pendingGuilds w"
  "failoverQueue (upd_player p f w) = failoverQueue w"
  "failoverRate (upd_player p f w) = failoverRate w"
  "failoverLimit (upd_player p f w) = failoverLimit w"
  "reconnectThreshold (upd_player p f w) = reconnectThreshold w"
  "gateway (upd_player p f w) = gateway w"
  "settlements (upd_player p f w) = settlements w"
  "conts (upd_player p f w) = conts w"
  "timers (upd_player p f w) = timers w"
  "ticks (upd_player p f w) = ticks w"
  "microtasks (upd_player p f w) = microtasks w"
  "thrown (upd_player p f w) = thrown w"
  "failover_log (upd_player p f w) = failover_log w"
  by (simp_all add: upd_player_def split: option.splits)

lemma upd_node_frame [simp]:
  "now (upd_node n f w) = now w"
  "next_id (upd_node n f w) = next_id w"
  "players (upd_node n f w) = players w"
  "nodes (upd_node n f w) = nodes w"
  "registry (upd_node n f w) = registry w"
  "pendingGuilds (upd_node n f w) = pendingGuilds w"
  "failoverQueue (upd_node n f w) = failoverQueue w"
  "failoverRate (upd_node n f w) = failoverRate w"
  "failoverLimit (upd_node n f w) = failoverLimit w"
  "reconnectThreshold (upd_node n f w) = reconnectThreshold w"
  "gateway (upd_node n f w) = gateway w"
  "settlements (upd_node n f w) = settlements w"
  "conts (upd_node n f w) = conts w"
  "timers (upd_node n f w) = timers w"
  "ticks (upd_node n f w) = ticks w"
  "microtasks (upd_node n f w) = microtasks w"
  "thrown (upd_node n f w) = thrown w"
  "failover_log (upd_node n f w) = failover_log w"
  by (simp_all add: upd_node_def split: option.splits)

lemma node_send_frame [simp]:
  "now (node_send n d w) = now w"
  "next_id (node_send n d w) = next_id w"
  "players (node_send n d w) = players w"
  "nodes (node_send n d w) = nodes w"
  "registry (node_send n d w) = registry w"
  "pendingGuilds (node_send n d w) = pendingGuilds w"
  "failoverQueue (node_send n d w) = failoverQueue w"
  "failoverRate (node_send n d w) = failoverRate w"
  "failoverLimit (node_send n d w) = failoverLimit w"
  "reconnectThreshold (node_send n d w) = reconnectThreshold w"
  "gateway (node_send n d w) = gateway w"
  "settlements (node_send n d w) = settlements w"
  "conts (node_send n d w) = conts w"
  "timers (node_send n d w) = timers w"
  "ticks (node_send n d w) = ticks w"
  "microtasks (node_send n d w) = microtasks w"
  "thrown (node_send n d w) = thrown w"
  "failover_log (node_send n d w) = failover_log w"
  by (simp_all add: node_send_def upd_node_def split: option.splits)

lemma nextTick_frame [simp]:
  "now (nextTick t w) = now w"
  "next_id (nextTick t w) = next_id w"
  "lavalinks (nextTick t w) = lavalinks w"
  "players (nextTick t w) = players w"
  "nodes (nextTick t w) = nodes w"
  "registry (nextTick t w) = registry w"
  "pendingGuilds (nextTick t w) = pendingGuilds w"
  "failoverQueue (nextTick t w) = failoverQueue w"
  "failoverRate (nextTick t w) = failoverRate w"
  "failoverLimit (nextTick t w) = failoverLimit w"
  "reconnectThreshold (nextTick t w) = reconnectThreshold w"
  "gateway (nextTick t w) = gateway w"
  "settlements (nextTick t w) = settlements w"
  "conts (nextTick t w) = conts w"
  "timers (nextTick t w) = timers w"
  "microtasks (nextTick t w) = microtasks w"
  "thrown (nextTick t w) = thrown w"
  "failover_log (nextTick t w) = failover_log w"
  by (simp_all add: nextTick_def )

lemma clearTimeout_frame [simp]:
  "now (clearTimeout h w) = now w"
  "next_id (clearTimeout h w) = next_id w"
  "lavalinks (clearTimeout h w) = lavalinks w"
  "players (clearTimeout h w) = players w"
  "nodes (clearTimeout h w) = nodes w"
  "registry (clearTimeout h w) = registry w"
  "pendingGuilds (clearTimeout h w) = pendingGuilds w"
  "failoverQueue (clearTimeout h w) = failoverQueue w"
  "failoverRate (clearTimeout h w) = failoverRate w"
  "failoverLimit (clearTimeout h w) = failoverLimit w"
  "reconnectThreshold (clearTimeout h w) = reconnectThreshold w"
  "gateway (clearTimeout h w) = gateway w"
  "settlements (clearTimeout h w) = settlements w"
  "conts (clearTimeout h w) = conts w"
  "ticks (clearTimeout h w) = ticks w"
  "microtasks (clearTimeout h w) = microtasks w"
  "thrown (clearTimeout h w) = thrown w"
  "failover_log (clearTimeout h w) = failover_log w"
  by (simp_all add: clearTimeout_def )

lemma setTimeout_frame [simp]:
  "now (snd (setTimeout a d w)) = now w"
  "lavalinks (snd (setTimeout a d w)) = lavalinks w"
  "players (snd (setTimeout a d w)) = players w"
  "nodes (snd (setTimeout a d w)) = nodes w"
  "registry (snd (setTimeout a d w)) = registry w"
  "pendingGuilds (snd (setTimeout a d w)) = pendingGuilds w"
  "failoverQueue (snd (setTimeout a d w)) = failoverQueue w"
  "failoverRate (snd (setTimeout a d w)) = failoverRate w"
  "failoverLimit (snd (setTimeout a d w)) = failoverLimit w"
  "reconnectThreshold (snd (setTimeout a d w)) = reconnectThreshold w"
  "gateway (snd (setTimeout a d w)) = gateway w"
  "settlements (snd (setTimeout a d w)) = settlements w"
  "conts (snd (setTimeout a d w)) = conts w"
  "ticks (snd (setTimeout a d w)) = ticks w"
  "microtasks (snd (setTimeout a d w)) = microtasks w"
  "thrown (snd (setTimeout a d w)) = thrown w"
  "failover_log (snd (setTimeout a d w)) = failover_log w"
  by (simp_all add: setTimeout_def )

lemma settle_frame [simp]:
  "now (settle pr out w) = now w"
  "next_id (settle pr out w) = next_id w"
  "lavalinks (settle pr out w) = lavalinks w"
  "players (settle pr out w) = players w"
  "nodes (settle pr out w) = nodes w"
  "registry (settle pr out w) = registry w"
  "pendingGuilds (settle pr out w) = pendingGuilds w"
  "failoverQueue (settle pr out w) = failoverQueue w"
  "failoverRate (settle pr out w) = failoverRate w"
  "failoverLimit (settle pr out w) = failoverLimit w"
  "reconnectThreshold (settle pr out w) = reconnectThreshold w"
  "gateway (settle pr out w) = gateway w"
  "conts (settle pr out w) = conts w"
  "timers (settle pr out w) = timers w"
  "ticks (settle pr out w) = ticks w"
  "thrown (settle pr out w) = thrown w"
  "failover_log (settle pr out w) = failover_log w"
  by (simp_all add: settle_def Let_def split: option.splits)

lemma add_listener_frame [simp]:
  "now (add_listener p ev once fn w) = now w"
  "next_id (add_listener p ev once fn w) = next_id w"
  "lavalinks (add_listener p ev once fn w) = lavalinks w"
  "nodes (add_listener p ev once fn w) = nodes w"
  "registry (add_listener p ev once fn w) = registry w"
  "pendingGuilds (add_listener p ev once fn w) = pendingGuilds w"
  "failoverQueue (add_listener p ev once fn w) = failoverQueue w"
  "failoverRate (add_listener p ev once fn w) = failoverRate w"
  "failoverLimit (add_listener p ev once fn w) = failoverLimit w"
  "reconnectThreshold (add_listener p ev once fn w) = reconnectThreshold w"
  "gateway (add_listener p ev once fn w) = gateway w"
  "settlements (add_listener p ev once fn w) = settlements w"
  "conts (add_listener p ev once fn w) = conts w"
  "timers (add_listener p ev once fn w) = timers w"
  "ticks (add_listener p ev once fn w) = ticks w"
  "microtasks (add_listener p ev once fn w) = microtasks w"
  "thrown (add_listener p ev once fn w) = thrown w"
  "failover_log (add_listener p ev once fn w) = failover_log w"
  by (simp_all add: add_listener_def upd_player_def split: option.splits)

lemma removeListener_frame [simp]:
  "now (removeListener p ev fn oo w) = now w"
  "next_id (removeListener p ev fn oo w) = next_id w"
  "lavalinks (removeListener p ev fn oo w) = lavalinks w"
  "nodes (removeListener p ev fn oo w) = nodes w"
  "registry (removeListener p ev fn oo w) = registry w"
  "pendingGuilds (removeListener p ev fn oo w) = pendingGuilds w"
  "failoverQueue (removeListener p ev fn oo w) = failoverQueue w"
  "failoverRate (removeListener p ev fn oo w) = failoverRate w"
  "failoverLimit (removeListener p ev fn oo w) = failoverLimit w"
  "reconnectThreshold (removeListener p ev fn oo w) = reconnectThreshold w"
  "gateway (removeListener p ev fn oo w) = gateway w"
  "settlements (removeListener p ev fn oo w) = settlements w"
  "conts (removeListener p ev fn oo w) = conts w"
  "timers (removeListener p ev fn oo w) = timers w"
  "ticks (removeListener p ev fn oo w) = ticks w"
  "microtasks (removeListener p ev fn oo w) = microtasks w"
  "thrown (removeListener p ev fn oo w) = thrown w"
  "failover_log (removeListener p ev fn oo w) = failover_log w"
  by (simp_all add: removeListener_def upd_player_def split: option.splits)

lemma pending_delete_frame [simp]:
  "now (pending_delete g w) = now w"
  "next_id (pending_delete g w) = next_id w"
  "lavalinks (pending_delete g w) = lavalinks w"
  "players (pending_delete g w) = players w"
  "nodes (pending_delete g w) = nodes w"
  "registry (pending_delete g w) = registry w"
  "failoverQueue (pending_delete g w) = failoverQueue w"
  "failoverRate (pending_delete g w) = failoverRate w"
  "failoverLimit (pending_delete g w) = failoverLimit w"
  "reconnectThreshold (pending_delete g w) = reconnectThreshold w"
  "gateway (pending_delete g w) = gateway w"
  "settlements (pending_delete g w) = settlements w"
  "conts (pending_delete g w) = conts w"
  "timers (pending_delete g w) = timers w"
  "ticks (pending_delete g w) = ticks w"
  "microtasks (pending_delete g w) = microtasks w"
  "thrown (pending_delete g w) = thrown w"
  "failover_log (pending_delete g w) = failover_log w"
  by (simp_all add: pending_delete_def )

lemma registry_set_frame [simp]:
  "now (registry_set g p w) = now w"
  "next_id (registry_set g p w) = next_id w"
  "lavalinks (registry_set g p w) = lavalinks w"
  "players (registry_set g p w) = players w"
  "nodes (registry_set g p w) = nodes w"
  "pendingGuilds (registry_set g p w) = pendingGuilds w"
  "failoverQueue (registry_set g p w) = failoverQueue w"
  "failoverRate (registry_set g p w) = failoverRate w"
  "failoverLimit (registry_set g p w) = failoverLimit w"
  "reconnectThreshold (registry_set g p w) = reconnectThreshold w"
  "gateway (registry_set g p w) = gateway w"
  "settlements (registry_set g p w) = settlements w"
  "conts (registry_set g p w) = conts w"
  "timers (registry_set g p w) = timers w"
  "ticks (registry_set g p w) = ticks w"
  "microtasks (registry_set g p w) = microtasks w"
  "thrown (registry_set g p w) = thrown w"
  "failover_log (registry_set g p w) = failover_log w"
  by (simp_all add: registry_set_def )

lemma registry_delete_frame [simp]:
  "now (registry_delete k w) = now w"
  "next_id (registry_delete k w) = next_id w"
  "lavalinks (registry_delete k w) = lavalinks w"
  "players (registry_delete k w) = players w"
  "nodes (registry_delete k w) = nodes w"
  "pendingGuilds (registry_delete k w) = pendingGuilds w"
  "failoverQueue (registry_delete k w) = failoverQueue w"
  "failoverRate (registry_delete k w) = failoverRate w"
  "failoverLimit (registry_delete k w) = failoverLimit w"
  "reconnectThreshold (registry_delete k w) = reconnectThreshold w"
  "gateway (registry_delete k w) = gateway w"
  "settlements (registry_delete k w) = settlements w"
  "conts (registry_delete k w) = conts w"
  "timers (registry_delete k w) = timers w"
  "ticks (registry_delete k w) = ticks w"
  "microtasks (registry_delete k w) = microtasks w"
  "thrown (registry_delete k w) = thrown w"
  "failover_log (registry_delete k w) = failover_log w"
  by (simp_all add: registry_delete_def )

lemma nodes_delete_frame [simp]:
  "now (nodes_delete h w) = now w"
  "next_id (nodes_delete h w) = next_id w"
  "lavalinks (nodes_delete h w) = lavalinks w"
  "players (nodes_delete h w) = players w"
  "registry (nodes_delete h w) = registry w"
  "pendingGuilds (nodes_delete h w) = pendingGuilds w"
  "failoverQueue (nodes_delete h w) = failoverQueue w"
  "failoverRate (nodes_delete h w) = failoverRate w"
  "failoverLimit (nodes_delete h w) = failoverLimit w"
  "reconnectThreshold (nodes_delete h w) = reconnectThreshold w"
  "gateway (nodes_delete h w) = gateway w"
  "settlements (nodes_delete h w) = settlements w"
  "conts (nodes_delete h w) = conts w"
  "timers (nodes_delete h w) = timers w"
  "ticks (nodes_delete h w) = ticks w"
  "microtasks (nodes_delete h w) = microtasks w"
  "thrown (nodes_delete h w) = thrown w"
  "failover_log (nodes_delete h w) = failover_log w"
  by (simp_all add: nodes_delete_def )

lemma updateVoiceState_frame [simp]:
  "now (updateVoiceState p c w) = now w"
  "next_id (updateVoiceState p c w) = next_id w"
  "lavalinks (updateVoiceState p c w) = lavalinks w"
  "players (updateVoiceState p c w) = players w"
  "nodes (updateVoiceState p c w) = nodes w"
  "registry (updateVoiceState p c w) = registry w"
  "pendingGuilds (updateVoiceState p c w) = pendingGuilds w"
  "failoverQueue (updateVoiceState p c w) = failoverQueue w"
  "failoverRate (updateVoiceState p c w) = failoverRate w"
  "failoverLimit (updateVoiceState p c w) = failoverLimit w"
  "reconnectThreshold (updateVoiceState p c w) = reconnectThreshold w"
  "settlements (updateVoiceState p c w) = settlements w"
  "conts (updateVoiceState p c w) = conts w"
  "timers (updateVoiceState p c w) = timers w"
  "ticks (updateVoiceState p c w) = ticks w"
  "microtasks (updateVoiceState p c w) = microtasks w"
  "thrown (updateVoiceState p c w) = thrown w"
  "failover_log (updateVoiceState p c w) = failover_log w"
  by (simp_all add: updateVoiceState_def split: option.splits)

lemma throw_frame [simp]:
  "now (snd (throw e w)) = now w"
  "next_id (snd (throw e w)) = next_id w"
  "lavalinks (snd (throw e w)) = lavalinks w"
  "players (snd (throw e w)) = players w"
  "nodes (snd (throw e w)) = nodes w"
  "registry (snd (throw e w)) = registry w"
  "pendingGuilds (snd (throw e w)) = pendingGuilds w"
  "failoverQueue (snd (throw e w)) = failoverQueue w"
  "failoverRate (snd (throw e w)) = failoverRate w"
  "failoverLimit (snd (throw e w)) = failoverLimit w"
  "reconnectThreshold (snd (throw e w)) = reconnectThreshold w"
  "gateway (snd (throw e w)) = gateway w"
  "settlements (snd (throw e w)) = settlements w"
  "conts (snd (throw e w)) = conts w"
  "timers (snd (throw e w)) = timers w"
  "ticks (snd (throw e w)) = ticks w"
  "microtasks (snd (throw e w)) = microtasks w"
  "failover_log (snd (throw e w)) = failover_log w"
  by (simp_all add: throw_def )

lemma upd_player_players [simp]:
  "players (upd_player p f w) q = (if q = p then map_option f (players w p) else players w q)"
  by (simp add: upd_player_def split: option.splits)

lemma upd_node_lavalinks [simp]:
  "lavalinks (upd_node n f w) m = (if m = n then map_option f (lavalinks w n) else lavalinks w m)"
  by (simp add: upd_node_def split: option.splits)

lemma nextTick_ticks [simp]: "ticks (nextTick t w) = ticks w @ [t]"
  by (simp add: nextTick_def)

lemma pending_delete_pending [simp]: "pendingGuilds (pending_delete g w) = (pendingGuilds w)(g := None)"
  by (simp add: pending_delete_def)

lemma settle_settlements [simp]: "settlements (settle pr out w) = settlements w @ [(pr, out)]"
  by (simp add: settle_def Let_def split: option.splits)

lemma registry_set_registry [simp]:
  "registry (registry_set g p w) = AList.update (KString g) p (registry w)"
  by (simp add: registry_set_def)

lemma registry_delete_registry [simp]:
  "registry (registry_delete k w) = AList.delete k (registry w)"
  by (simp add: registry_delete_def)

lemma clearTimeout_timers [simp]:
  "timers (clearTimeout h w) = filter (\<lambda>t. fst t \<noteq> h) (timers w)"
  by (simp add: clearTimeout_def)

lemma add_listener_players:
  "players (add_listener p ev once fn w) q =
     (if q = p then map_option (\<lambda>pl. pl\<lparr>pl_listeners := pl_listeners pl @ [(ev, once, fn)]\<rparr>) (players w p)
      else players w q)"
  by (simp add: add_listener_def)

lemma removeListener_players:
  "players (removeListener p ev fn oo w) q =
     (if q = p
      then map_option (\<lambda>pl. pl\<lparr>pl_listeners :=
             filter (\<lambda>(e, once, f). \<not> (e = ev \<and> f = fn \<and> (if oo then once else True)))
               (pl_listeners pl)\<rparr>) (players w p)
      else players w q)"
  by (simp add: removeListener_def)

section \<open>Emitting changes listeners only\<close>

lemma core_fields [simp]:
  "pl_playing (core pl) = pl_playing pl"
  "pl_track (core pl) = pl_track pl"
  "pl_lastTrack (core pl) = pl_lastTrack pl"
  "pl_emitted (core pl) = pl_emitted pl"
  "pl_channelId (core pl) = pl_channelId pl"
  "pl_sendQueue (core pl) = pl_sendQueue pl"
  "pl_receivedEvents (core pl) = pl_receivedEvents pl"
  "pl_node (core pl) = pl_node pl"
  "pl_state (core pl) = pl_state pl"
  "pl_guildId (core pl) = pl_guildId pl"
  by (simp_all add: core_def)

lemma core_upd_player:
  "(\<And>pl. core (f pl) = core pl) \<Longrightarrow>
     map_option core (players (upd_player p f w) q) = map_option core (players w q)"
  by (cases "players w p") (simp_all add: option.map_comp comp_def)

lemma core_removeListener [simp]:
  "map_option core (players (removeListener p ev fn oo w) q) = map_option core (players w q)"
  unfolding removeListener_def by (rule core_upd_player) (simp add: core_def)

lemma core_add_listener [simp]:
  "map_option core (players (add_listener p ev once fn w) q) = map_option core (players w q)"
  unfolding add_listener_def by (rule core_upd_player) (simp add: core_def)

lemma core_readyHandler [simp]:
  "map_option core (players (snd (readyHandler h g w)) q) = map_option core (players w q)"
  by (simp add: readyHandler_def Let_def split: option.splits)

lemma core_disconnectHandler [simp]:
  "map_option core (players (snd (disconnectHandler h g w)) q) = map_option core (players w q)"
  by (simp add: disconnectHandler_def Let_def split: option.splits)

lemma core_invoke [simp]:
  "map_option core (players (snd (invoke fn p w)) q) = map_option core (players w q)"
proof (cases fn)
  case (RestoreEnd ls)
  show ?thesis
    unfolding RestoreEnd invoke.simps snd_conv by (rule core_upd_player) (simp add: core_def)
qed simp_all

lemma core_call_listeners [simp]:
  "map_option core (players (call_listeners ls ev p w) q) = map_option core (players w q)"
proof (induction ls arbitrary: w)
  case Nil
  then show ?case by simp
next
  case (Cons a ls)
  obtain once fn where a: "a = (once, fn)" by (cases a)
  show ?case
    using Cons.IH[of "snd (invoke fn p (if once then removeListener p ev fn True w else w))"]
    by (simp add: a Let_def split_beta)
qed

lemma core_emit:
  "map_option core (players (emit p ev note w) q) =
     (if q = p then map_option (\<lambda>pl. core (pl\<lparr>pl_emitted := pl_emitted pl @ [note]\<rparr>)) (players w p)
      else map_option core (players w q))"
  by (simp add: emit_def option.map_comp comp_def split: option.splits)

section \<open>Track end\<close>

text \<open>
  C4 (counterexample). The session of the example state plays track A; a track-end
  message with reason \<^verbatim>\<open>REPLACED\<close> is handled: the end event is emitted, but the player
  is still playing and still holds track A.
\<close>

theorem C4_replaced_keeps_state:
  "map_option pl_playing (players (onTrackEnd 3 replaced playing_session) 3) = Some True
   \<and> map_option pl_track (players (onTrackEnd 3 replaced playing_session) 3) = Some (Some ''A'')
   \<and> map_option pl_emitted (players (onTrackEnd 3 replaced playing_session) 3)
       = Some [NConnect, NReady, NEnd replaced]"
  by (simp add: playing_session_def replaced_def session_eq session_player_def onTrackEnd_def model_defs)

text \<open>
  C4 (amended). \<^verbatim>\<open>onTrackEnd(message)\<close> always emits the end event with the message as
  its payload (the reason is a field of the message). When the reason is \<^verbatim>\<open>REPLACED\<close>
  the player's \<^verbatim>\<open>playing\<close>, \<^verbatim>\<open>track\<close> and \<^verbatim>\<open>lastTrack\<close> are left as they were; for every
  other reason \<^verbatim>\<open>playing\<close> becomes false, \<^verbatim>\<open>lastTrack\<close> takes the track and the track is
  cleared.
\<close>

theorem C4_onTrackEnd:
  assumes "players w p = Some pl"
  shows "\<exists>pl'. players (onTrackEnd p msg w) p = Some pl'
     \<and> pl_emitted pl' = pl_emitted pl @ [NEnd msg]
     \<and> (if m_reason msg = Some ''REPLACED''
        then pl_playing pl' = pl_playing pl \<and> pl_track pl' = pl_track pl
             \<and> pl_lastTrack pl' = pl_lastTrack pl
        else \<not> pl_playing pl' \<and> pl_track pl' = None \<and> pl_lastTrack pl' = pl_track pl)"
proof -
  let ?w1 = "if m_reason msg \<noteq> Some ''REPLACED''
             then upd_player p (\<lambda>pl. pl\<lparr>pl_playing := False, pl_lastTrack := pl_track pl, pl_track := None\<rparr>) w
             else w"
  let ?pl1 = "if m_reason msg \<noteq> Some ''REPLACED''
              then pl\<lparr>pl_playing := False, pl_lastTrack := pl_track pl, pl_track := None\<rparr>
              else pl"
  have p1: "players ?w1 p = Some ?pl1" using assms by simp
  have "map_option core (players (onTrackEnd p msg w) p)
          = Some (core (?pl1\<lparr>pl_emitted := pl_emitted ?pl1 @ [NEnd msg]\<rparr>))"
    unfolding onTrackEnd_def core_emit using p1 by simp
  then obtain pl' where pl': "players (onTrackEnd p msg w) p = Some pl'"
    and c: "core pl' = core (?pl1\<lparr>pl_emitted := pl_emitted ?pl1 @ [NEnd msg]\<rparr>)"
    by auto
  have "pl_emitted (core pl') = pl_emitted pl @ [NEnd msg]"
    and "m_reason msg = Some ''REPLACED'' \<Longrightarrow> pl_playing (core pl') = pl_playing pl"
    and "m_reason msg = Some ''REPLACED'' \<Longrightarrow> pl_track (core pl') = pl_track pl"
    and "m_reason msg = Some ''REPLACED'' \<Longrightarrow> pl_lastTrack (core pl') = pl_lastTrack pl"
    and "m_reason msg \<noteq> Some ''REPLACED'' \<Longrightarrow> \<not> pl_playing (core pl')"
    and "m_reason msg \<noteq> Some ''REPLACED'' \<Longrightarrow> pl_track (core pl') = None"
    and "m_reason msg \<noteq> Some ''REPLACED'' \<Longrightarrow> pl_lastTrack (core pl') = pl_track pl"
    unfolding c by simp_all
  then show ?thesis using pl' by (auto simp del: core_fields simp add: core_fields[of pl', symmetric])
qed

theorem C4_onTrackEnd_witness:
  "players playing_session 3 \<noteq> None
   \<and> (\<exists>pl'. players (onTrackEnd 3 replaced playing_session) 3 = Some pl'
         \<and> pl_playing pl' \<and> pl_track pl' = Some ''A'' \<and> last (pl_emitted pl') = NEnd replaced)
   \<and> (\<exists>pl'. players (onTrackEnd 3 finished playing_session) 3 = Some pl'
         \<and> \<not> pl_playing pl' \<and> pl_track pl' = None \<and> pl_lastTrack pl' = Some ''A''
         \<and> last (pl_emitted pl') = NEnd finished)"
proof -
  have p: "players playing_session 3 =
      Some (session_player\<lparr>pl_track := Some ''A'', pl_playing := True,
         pl_receivedEvents := [VoiceUpdate ''g1'' ''s'' ''e'' ''t'', Play ''g1'' (Some ''A'') None]\<rparr>)"
    by (simp add: playing_session_def session_eq session_player_def model_defs)
  have r: "m_reason replaced = Some ''REPLACED''" "m_reason finished \<noteq> Some ''REPLACED''"
    by (simp_all add: replaced_def finished_def)
  show ?thesis
    using C4_onTrackEnd[OF p, of replaced] C4_onTrackEnd[OF p, of finished] r p
    by (auto simp: session_player_def)
qed

section \<open>What touches the registry\<close>

lemma registry_sendEvent [simp]: "registry (sendEvent p d w) = registry w"
  by (simp add: sendEvent_def split: option.splits)

lemma registry_checkEventQueue [simp]: "registry (checkEventQueue p w) = registry w"
  by (simp add: checkEventQueue_def split: option.splits list.splits)

lemma registry_queueEvent [simp]: "registry (queueEvent p d w) = registry w"
  by (simp add: queueEvent_def split: option.splits)

lemma registry_readyHandler [simp]: "registry (snd (readyHandler h g w)) = registry w"
  by (simp add: readyHandler_def Let_def split: option.splits)

lemma registry_disconnectHandler [simp]: "registry (snd (disconnectHandler h g w)) = registry w"
  by (simp add: disconnectHandler_def Let_def split: option.splits)

lemma registry_invoke [simp]: "registry (snd (invoke fn p w)) = registry w"
  by (cases fn) simp_all

lemma registry_call_listeners [simp]: "registry (call_listeners ls ev p w) = registry w"
proof (induction ls arbitrary: w)
  case Nil
  then show ?case by simp
next
  case (Cons a ls)
  obtain once fn where a: "a = (once, fn)" by (cases a)
  show ?case
    using Cons.IH[of "snd (invoke fn p (if once then removeListener p ev fn True w else w))"]
    by (simp add: a Let_def split_beta)
qed

lemma registry_emit [simp]: "registry (emit p ev note w) = registry w"
  by (simp add: emit_def split: option.splits)

lemma registry_switchChannel [simp]: "registry (switchChannel p c r w) = registry w"
  by (simp add: switchChannel_def Let_def split: option.splits)

lemma registry_player_connect [simp]: "registry (player_connect p d w) = registry w"
  by (simp add: player_connect_def)

lemma registry_player_disconnect [simp]: "registry (player_disconnect p m w) = registry w"
  by (simp add: player_disconnect_def split: option.splits)

lemma registry_stop [simp]: "registry (stop p w) = registry w"
  by (simp add: stop_def split: option.splits)

lemma registry_stateUpdate [simp]: "registry (stateUpdate p st w) = registry w"
  by (simp add: stateUpdate_def)

lemma registry_onTrackEnd [simp]: "registry (onTrackEnd p m w) = registry w"
  by (simp add: onTrackEnd_def)

lemma registry_onTrackException [simp]: "registry (onTrackException p m w) = registry w"
  by (simp add: onTrackException_def)

lemma registry_onTrackStuck [simp]: "registry (onTrackStuck p m w) = registry w"
  by (simp add: onTrackStuck_def)

lemma registry_createNode [simp]: "registry (createNode h r w) = registry w"
  by (simp add: createNode_def Let_def)

lemma registry_reconnect [simp]: "registry (reconnect n w) = registry w"
  by (simp add: reconnect_def Let_def setTimeout_def split: option.splits)

lemma registry_ready [simp]: "registry (ready n w) = registry w"
  by (simp add: ready_def Let_def split: option.splits)

lemma registry_socket_opens [simp]: "registry (socket_opens n w) = registry w"
  by (simp add: socket_opens_def split: option.splits)

lemma registry_register_handlers [simp]: "registry (register_handlers p g w) = registry w"
  by (simp add: register_handlers_def Let_def)

lemma registry_detach_end_listeners [simp]: "registry (detach_end_listeners p w) = registry w"
proof -
  have "registry (foldl (\<lambda>w l. removeListener p ''end'' l False w) w ls) = registry w" for ls
    by (induction ls arbitrary: w) simp_all
  then show ?thesis by (simp add: detach_end_listeners_def split: option.splits)
qed

lemma registry_join_resume [simp]: "registry (join_resume pr g c r pl n w) = registry w"
  by (simp add: join_resume_def Let_def setTimeout_def split: option.splits)

lemma registry_join_timeout [simp]: "registry (join_timeout g pr n w) = registry w"
  by (simp add: join_timeout_def)

lemma registry_join_executor [simp]:
  "registry (snd (snd (join_executor g c r pa k w))) = registry w"
  by (simp add: join_executor_def Let_def split: option.splits)

lemma registry_join_begin [simp]: "registry (snd (join_begin g c r pa k w)) = registry w"
proof -
  obtain pr m w1 where e: "join_executor g c r pa k w = (pr, m, w1)" by (cases "join_executor g c r pa k w")
  then have "registry w1 = registry w" using registry_join_executor[of g c r pa k w] by simp
  then show ?thesis by (simp add: join_begin_def e split: option.splits)
qed

lemma registry_clear_pending_timeout [simp]: "registry (clear_pending_timeout g w) = registry w"
  by (simp add: clear_pending_timeout_def split: option.splits)

section \<open>The keys of the registry stay pairwise different\<close>

lemma keys_distinct_set: "keys_distinct w \<Longrightarrow> keys_distinct (registry_set g p w)"
  by (simp add: keys_distinct_def distinct_update)

lemma keys_distinct_delete: "keys_distinct w \<Longrightarrow> keys_distinct (registry_delete k w)"
  by (simp add: keys_distinct_def distinct_delete)

lemma keys_distinct_cong: "registry w' = registry w \<Longrightarrow> keys_distinct w' = keys_distinct w"
  by (simp add: keys_distinct_def)

lemma keys_switchNode: "keys_distinct w \<Longrightarrow> keys_distinct (snd (switchNode p l w))"
  by (auto simp: switchNode_def keys_distinct_def distinct_delete split: option.splits)

lemma keys_processQueue: "keys_distinct w \<Longrightarrow> keys_distinct (snd (processQueue fn w))"
proof -
  assume k: "keys_distinct w"
  obtain p l where fn: "fn = SwitchNode p l" by (cases fn)
  have "keys_distinct (w\<lparr>failover_log := failover_log w @ [(now w, fn)]\<rparr>)"
    using k by (simp add: keys_distinct_def)
  from keys_switchNode[OF this, of p l] show ?thesis
    by (simp add: processQueue_def fn split_beta keys_distinct_def)
qed

lemma keys_process_all: "keys_distinct w \<Longrightarrow> keys_distinct (snd (process_all fns w))"
proof (induction fns arbitrary: w)
  case Nil
  then show ?case by simp
next
  case (Cons fn fns)
  from keys_processQueue[OF Cons.prems, of fn] Cons.IH[of "snd (processQueue fn w)"]
  show ?case by (simp add: split_beta)
qed

lemma keys_checkFailoverQueue: "keys_distinct w \<Longrightarrow> keys_distinct (snd (checkFailoverQueue w))"
proof -
  assume k: "keys_distinct w"
  then have "keys_distinct (w\<lparr>failoverQueue := drop (failoverLimit w) (failoverQueue w)\<rparr>)"
    by (simp add: keys_distinct_def)
  from keys_process_all[OF this] k show ?thesis
    by (simp add: checkFailoverQueue_def Let_def)
qed

lemma keys_queueFailover: "keys_distinct w \<Longrightarrow> keys_distinct (snd (queueFailover fn w))"
  using keys_processQueue[of w fn] by (simp add: queueFailover_def keys_distinct_def)

lemma keys_queue_all: "keys_distinct w \<Longrightarrow> keys_distinct (snd (queue_all fns w))"
proof (induction fns arbitrary: w)
  case Nil
  then show ?case by simp
next
  case (Cons fn fns)
  from keys_queueFailover[OF Cons.prems, of fn] Cons.IH[of "snd (queueFailover fn w)"]
  show ?case by (simp add: split_beta)
qed

lemma keys_onDisconnect: "keys_distinct w \<Longrightarrow> keys_distinct (snd (onDisconnect n w))"
  using keys_queue_all[of w] by (simp add: onDisconnect_def Let_def split: option.splits)

lemma keys_removeNode: "keys_distinct w \<Longrightarrow> keys_distinct (snd (removeNode h w))"
proof -
  assume k: "keys_distinct w"
  have "keys_distinct (in_order [upd_node n destroy, nodes_delete h'] w)" for n h'
    using k by (simp add: keys_distinct_def)
  from keys_onDisconnect[OF this] k show ?thesis
    by (simp add: removeNode_def split: option.splits)
qed

lemma keys_leave: "keys_distinct w \<Longrightarrow> keys_distinct (leave g w)"
  by (simp add: leave_def keys_distinct_def distinct_delete split: option.splits)

lemma keys_voiceServerUpdate: "keys_distinct w \<Longrightarrow> keys_distinct (voiceServerUpdate d w)"
  by (simp add: voiceServerUpdate_def attach_player_def connect_pending_def pending_player_def
      keys_distinct_def distinct_update split: option.splits)

lemma keys_onMessage: "keys_distinct w \<Longrightarrow> keys_distinct (onMessage n m w)"
  by (auto simp: onMessage_def on_validationReq_def on_isConnectedReq_def on_sendWS_def
      on_playerUpdate_def on_event_def keys_distinct_def distinct_delete throw_def Let_def
      split: option.splits)

lemma keys_lavalink_onMessage: "keys_distinct w \<Longrightarrow> keys_distinct (lavalink_onMessage n m w)"
proof -
  assume k: "keys_distinct w"
  have "keys_distinct (upd_node n f w)" for f using k by (simp add: keys_distinct_def)
  from keys_onMessage[OF this] keys_onMessage[OF k] k show ?thesis
    by (simp add: lavalink_onMessage_def onError_def keys_distinct_def split: option.splits)
qed

lemma keys_play: "keys_distinct w \<Longrightarrow> keys_distinct (snd (play p t opts w))"
proof -
  assume k: "keys_distinct w"
  have "keys_distinct (upd_player p f (upd_player p f' w))" for f f'
    using k by (simp add: keys_distinct_def)
  from keys_switchNode[OF this] k show ?thesis
    by (simp add: play_def Let_def throw_def keys_distinct_def split: option.splits)
qed

lemma keys_run_cont: "keys_distinct w \<Longrightarrow> keys_distinct (run_cont k out w)"
proof -
  assume kd: "keys_distinct w"
  obtain q g tr pos where k: "k = Rehome q g tr pos" by (cases k)
  show ?thesis
  proof (cases out)
    case (Resolved p)
    from keys_play[OF kd, of p tr "Some [(''startTime'', JNum pos)]"]
    show ?thesis
      by (simp add: k Resolved split_beta keys_distinct_def distinct_update)
  next
    case (Rejected err)
    then show ?thesis using kd by (simp add: k keys_distinct_def)
  qed
qed

lemma keys_run_microtask: "keys_distinct w \<Longrightarrow> keys_distinct (run_microtask m w)"
  using keys_run_cont by (cases m) (simp_all add: keys_distinct_def)

lemma keys_run_task: "keys_distinct w \<Longrightarrow> keys_distinct (run_task t w)"
  by (cases t) (simp_all add: keys_distinct_def)

lemma keys_run_timer: "keys_distinct w \<Longrightarrow> keys_distinct (run_timer a w)"
  using keys_checkFailoverQueue by (cases a) (simp_all add: keys_distinct_def)

lemma keys_disconnected: "keys_distinct w \<Longrightarrow> keys_distinct (snd (disconnected n w))"
proof -
  assume k: "keys_distinct w"
  have "keys_distinct (upd_node n f w)" for f using k by (simp add: keys_distinct_def)
  from keys_onDisconnect[OF this] k show ?thesis
    by (simp add: disconnected_def Let_def split_beta keys_distinct_def setTimeout_def
        split: option.splits)
qed

lemma keys_step: "keys_distinct w \<Longrightarrow> keys_distinct (step e w)"
proof (cases e)
  case (Joins g c r pa)
  assume "keys_distinct w"
  then show ?thesis by (simp add: Joins keys_distinct_def)
next
  case (Plays p t opts)
  assume "keys_distinct w"
  then show ?thesis using keys_play by (simp add: Plays)
next
  case (RemovesNode h)
  assume "keys_distinct w"
  then show ?thesis using keys_removeNode by (simp add: RemovesNode)
next
  case (Closes n)
  assume "keys_distinct w"
  then show ?thesis using keys_disconnected by (simp add: Closes socket_closes_def split: option.splits)
next
  case NextTick
  assume k: "keys_distinct w"
  then have "keys_distinct (w\<lparr>ticks := ts\<rparr>)" for ts by (simp add: keys_distinct_def)
  then show ?thesis using keys_run_task k by (simp add: NextTick next_tick_def split: list.splits)
next
  case Microtask
  assume k: "keys_distinct w"
  then have "keys_distinct (w\<lparr>microtasks := ts\<rparr>)" for ts by (simp add: keys_distinct_def)
  then show ?thesis using keys_run_microtask k
    by (simp add: Microtask next_microtask_def split: list.splits)
next
  case (Fires h)
  assume k: "keys_distinct w"
  then have "keys_distinct (clearTimeout h w)" by (simp add: keys_distinct_def)
  then show ?thesis using keys_run_timer k
    by (auto simp: Fires fires_def split: option.splits)
qed (simp_all add: keys_leave keys_voiceServerUpdate keys_lavalink_onMessage,
     simp_all add: keys_distinct_def)

lemma keys_run: "keys_distinct w \<Longrightarrow> keys_distinct (run es w)"
  by (induction es arbitrary: w) (simp_all add: keys_step)

section \<open>One session per guild\<close>

lemma join_switches:
  assumes "map_of (registry w) (KString g) = Some p" and "players w p = Some pl"
    and "pl_channelId pl \<noteq> c"
  shows "join_executor g c region None None w =
           (next_id w, None,
            w\<lparr>next_id := Suc (next_id w), conts := (conts w)(next_id w := None),
              players := (players w)(p \<mapsto> pl\<lparr>pl_channelId := c\<rparr>),
              settlements := settlements w @ [(next_id w, Resolved p)]\<rparr>)"
  using assms
  by (simp add: join_executor_def Let_def switchChannel_def upd_player_def settle_def
      join_player_def switch_target_def)

text \<open>
  C7. The registry is a \<^verbatim>\<open>Map\<close> keyed by guild id: whatever happens (any sequence of
  events of the process), its keys stay pairwise different, so a guild has at most one
  session in it. And \<^verbatim>\<open>join(guildId, channelId)\<close> for a guild whose registered session
  is in another channel switches that session's channel in place and resolves the
  promise it returns with that session, at once: nothing waits in the microtask queue,
  the registry is the same, no player object is created, no pending join is registered,
  no timer is armed, no node is handed anything and nothing goes to the gateway.
\<close>

theorem C7_one_session_per_guild:
  "(keys_distinct w \<longrightarrow> keys_distinct (run es w))
   \<and> (map_of (registry w) (KString g) = Some p \<and> players w p = Some pl \<and> pl_channelId pl \<noteq> c \<longrightarrow>
        join g c region None w =
          (next_id w,
           w\<lparr>next_id := Suc (next_id w), conts := (conts w)(next_id w := None),
             players := (players w)(p \<mapsto> pl\<lparr>pl_channelId := c\<rparr>),
             settlements := settlements w @ [(next_id w, Resolved p)]\<rparr>)
        \<and> join_begin g c region None None w = join g c region None w
        \<and> registry (snd (join g c region None w)) = registry w
        \<and> dom (players (snd (join g c region None w))) = dom (players w)
        \<and> pendingGuilds (snd (join g c region None w)) = pendingGuilds w
        \<and> timers (snd (join g c region None w)) = timers w
        \<and> microtasks (snd (join g c region None w)) = microtasks w
        \<and> lavalinks (snd (join g c region None w)) = lavalinks w
        \<and> gateway (snd (join g c region None w)) = gateway w)"
proof (intro conjI impI)
  assume "keys_distinct w"
  then show "keys_distinct (run es w)" by (rule keys_run)
next
  assume a: "map_of (registry w) (KString g) = Some p \<and> players w p = Some pl \<and> pl_channelId pl \<noteq> c"
  then have e: "join_executor g c region None None w =
           (next_id w, None,
            w\<lparr>next_id := Suc (next_id w), conts := (conts w)(next_id w := None),
              players := (players w)(p \<mapsto> pl\<lparr>pl_channelId := c\<rparr>),
              settlements := settlements w @ [(next_id w, Resolved p)]\<rparr>)"
    by (simp add: join_switches)
  show j: "join g c region None w =
          (next_id w,
           w\<lparr>next_id := Suc (next_id w), conts := (conts w)(next_id w := None),
             players := (players w)(p \<mapsto> pl\<lparr>pl_channelId := c\<rparr>),
             settlements := settlements w @ [(next_id w, Resolved p)]\<rparr>)"
    by (simp add: join_def e)
  show "join_begin g c region None None w = join g c region None w"
    by (simp add: join_def join_begin_def e)
  show "registry (snd (join g c region None w)) = registry w" by (simp add: j)
  show "dom (players (snd (join g c region None w))) = dom (players w)"
    using a by (auto simp: j)
  show "pendingGuilds (snd (join g c region None w)) = pendingGuilds w" by (simp add: j)
  show "timers (snd (join g c region None w)) = timers w" by (simp add: j)
  show "microtasks (snd (join g c region None w)) = microtasks w" by (simp add: j)
  show "lavalinks (snd (join g c region None w)) = lavalinks w" by (simp add: j)
  show "gateway (snd (join g c region None w)) = gateway w" by (simp add: j)
qed

theorem C7_one_session_per_guild_witness:
  "keys_distinct session
   \<and> keys_distinct (run [Joins ''g2'' ''c2'' None None, Microtask, VoiceServer (vsu ''g2''), Leaves ''g1''] session)
   \<and> map_of (registry session) (KString ''g1'') = Some 3
   \<and> players session 3 = Some session_player
   \<and> pl_channelId session_player \<noteq> ''c2''
   \<and> fst (join ''g1'' ''c2'' None None session) = 5
   \<and> settlements (snd (join ''g1'' ''c2'' None None session)) = [(1, Resolved 3), (5, Resolved 3)]
   \<and> map_option pl_channelId (players (snd (join ''g1'' ''c2'' None None session)) 3) = Some ''c2''
   \<and> pendingGuilds (snd (join ''g1'' ''c2'' None None session)) = Map.empty"
proof -
  have k: "keys_distinct session" by (simp add: keys_distinct_def session_eq)
  have a: "map_of (registry session) (KString ''g1'') = Some 3 \<and> players session 3 = Some session_player
      \<and> pl_channelId session_player \<noteq> ''c2''"
    by (simp add: session_eq session_player_def)
  show ?thesis
    using C7_one_session_per_guild[of session
        "[Joins ''g2'' ''c2'' None None, Microtask, VoiceServer (vsu ''g2''), Leaves ''g1'']"
        "''g1''" 3 session_player "''c2''" None] k a
    by (simp add: session_eq)
qed

section \<open>Node selection\<close>







lemma node_values_fresh [simp]:
  "node_values (w\<lparr>next_id := a, conts := b\<rparr>) = node_values w"
  by (simp add: node_values_def)

lemma findIdealNode_fresh [simp]:
  "findIdealNode r (w\<lparr>next_id := a, conts := b\<rparr>) = findIdealNode r w"
  by (simp add: findIdealNode_def)

lemma getRegionFromData_fresh [simp]:
  "getRegionFromData e (w\<lparr>next_id := a, conts := b\<rparr>) = getRegionFromData e w"
  unfolding getRegionFromData_def node_values_fresh by (simp add: Let_def cong: if_cong)






section \<open>Command order\<close>

lemma wire_upd_player [simp]: "wire (upd_player p f w) n = wire w n"
  by (simp add: wire_def)

lemma wire_nextTick [simp]: "wire (nextTick t w) n = wire w n"
  by (simp add: wire_def)

lemma queued_nextTick [simp]: "queued (nextTick t w) p = queued w p"
  by (simp add: queued_def nextTick_def)

lemma queued_node_send [simp]: "queued (node_send n d w) p = queued w p"
  by (simp add: queued_def)

lemma history_nextTick [simp]: "history (nextTick t w) p = history w p"
  by (simp add: history_def nextTick_def)

lemma history_node_send [simp]: "history (node_send n d w) p = history w p"
  by (simp add: history_def)


lemma send_keeps_socket [simp]: "ll_ws (send l d) = None \<longleftrightarrow> ll_ws l = None"
  by (cases "ll_ws l") (simp_all add: send_def)

lemma send_keeps_socket' [simp]: "(\<exists>y. ll_ws (send l d) = Some y) \<longleftrightarrow> (\<exists>y. ll_ws l = Some y)"
  by (cases "ll_ws l") (simp_all add: send_def)

lemma attached_node_send [simp]: "attached p n (node_send m d w) = attached p n w"
  by (cases "lavalinks w m"; cases "m = n") (auto simp: attached_def node_send_def upd_node_def)

lemma attached_nextTick [simp]: "attached p n (nextTick t w) = attached p n w"
  by (simp add: attached_def nextTick_def)














end
